theory Spec2Isabelle
  imports
    Complex_Main
    "HOL-Library.Char_ord"
    "HOL-Library.List_Lexorder"
    "HOL-Library.Sublist"
    "HOL-Library.AList"
begin

section \<open>A spreadsheet viewer: credentials, loading, and the composed page\<close>

text \<open>
  The repository holds two Streamlit scripts, \<^verbatim>\<open>app.py\<close> and \<^verbatim>\<open>streamlit_app.py\<close>.
  Each one authorizes against Google Sheets, loads one worksheet into a pandas DataFrame,
  and renders a select box, a table and one metric. This theory embeds both scripts:
  every call on the Streamlit API is an element of the rendered page, every exception is
  a value, and the remote service, the file system and the secret store are fields of an
  environment record.

  Python strings are lists of code points. They are written here as the bytes of their
  UTF-8 encoding: equality of the encodings is equality of the strings, and the
  lexicographic order of the bytes is the order of the code points, which is the order
  \<^verbatim>\<open>sorted\<close> uses on strings.
\<close>

subsection \<open>The string literals of the two scripts\<close>

definition SERVICE_ACCOUNT_FILE :: string where
  "SERVICE_ACCOUNT_FILE = ''credentials.json''"

definition SHEET_URL :: string where
  "SHEET_URL =
     ''https://docs.google.com/spreadsheets/d/1dvx7XQDZCp1f60bdoEi6KcUGpvghO3kxdGZJkj_ZSiE''"

text \<open>The single quote that the f-strings put around a file or sheet name.\<close>
definition quoted :: "string \<Rightarrow> string" where
  "quoted s = [CHR 0x27] @ s @ [CHR 0x27]"

text \<open>The wanted column naming the cluster (the Korean word for cluster), in UTF-8. Code
  points: U+D074 U+B7EC U+C2A4 U+D130.\<close>
definition col_cluster :: string where
  "col_cluster =
     [CHR 0xED, CHR 0x81, CHR 0xB4, CHR 0xEB, CHR 0x9F, CHR 0xAC, CHR 0xEC, CHR 0x8A,
       CHR 0xA4, CHR 0xED, CHR 0x84, CHR 0xB0]"

text \<open>The wanted column with the employee number. Code points: U+C0AC U+BC88.\<close>
definition col_empno :: string where
  "col_empno =
     [CHR 0xEC, CHR 0x82, CHR 0xAC, CHR 0xEB, CHR 0xB2, CHR 0x88]"

text \<open>The wanted column with the name of the employee. Code points: U+C774 U+B984.\<close>
definition col_name :: string where
  "col_name =
     [CHR 0xEC, CHR 0x9D, CHR 0xB4, CHR 0xEB, CHR 0xA6, CHR 0x84]"

text \<open>The wanted column with the department name. Code points: U+BD80 U+C11C U+BA85.\<close>
definition col_dept :: string where
  "col_dept =
     [CHR 0xEB, CHR 0xB6, CHR 0x80, CHR 0xEC, CHR 0x84, CHR 0x9C, CHR 0xEB, CHR 0xAA,
       CHR 0x85]"

text \<open>The accumulated-time column. Code points: U+B204 U+C801 U+C2DC U+AC04.\<close>
definition col_hours :: string where
  "col_hours =
     [CHR 0xEB, CHR 0x88, CHR 0x84, CHR 0xEC, CHR 0xA0, CHR 0x81, CHR 0xEC, CHR 0x8B,
       CHR 0x9C, CHR 0xEA, CHR 0xB0, CHR 0x84]"

text \<open>The first filter option, the Korean word for all. Code points: U+C804 U+CCB4.\<close>
definition all_clusters_label :: string where
  "all_clusters_label =
     [CHR 0xEC, CHR 0xA0, CHR 0x84, CHR 0xEC, CHR 0xB2, CHR 0xB4]"

text \<open>The sub-table both programs load (by cluster): the cluster word and U+BCC4. Code points:
  U+D074 U+B7EC U+C2A4 U+D130 U+BCC4.\<close>
definition default_sheet_name :: string where
  "default_sheet_name =
     [CHR 0xED, CHR 0x81, CHR 0xB4, CHR 0xEB, CHR 0x9F, CHR 0xAC, CHR 0xEC, CHR 0x8A,
       CHR 0xA4, CHR 0xED, CHR 0x84, CHR 0xB0, CHR 0xEB, CHR 0xB3, CHR 0x84]"

text \<open>The argument of st.title: the emoji U+1F4C4, then RAW and the Korean for data view
  (basic view).\<close>
definition page_title :: string where
  "page_title =
     [CHR 0xF0, CHR 0x9F, CHR 0x93, CHR 0x84] @ '' RAW '' @ [CHR 0xEB, CHR 0x8D, CHR 0xB0,
       CHR 0xEC, CHR 0x9D, CHR 0xB4, CHR 0xED, CHR 0x84, CHR 0xB0] @ '' '' @ [CHR 0xEC,
       CHR 0xA1, CHR 0xB0, CHR 0xED, CHR 0x9A, CHR 0x8C] @ '' ('' @ [CHR 0xEA, CHR 0xB8,
       CHR 0xB0, CHR 0xEB, CHR 0xB3, CHR 0xB8] @ '' '' @ [CHR 0xEB, CHR 0xB7, CHR 0xB0]
     @ '')''"

text \<open>The literal part of the st.write line (target sheet). Code points: U+B300 U+C0C1 U+C2DC
  U+D2B8.\<close>
definition target_sheet_prefix :: string where
  "target_sheet_prefix =
     [CHR 0xEB, CHR 0x8C, CHR 0x80, CHR 0xEC, CHR 0x83, CHR 0x81] @ '' '' @ [CHR 0xEC,
       CHR 0x8B, CHR 0x9C, CHR 0xED, CHR 0x8A, CHR 0xB8] @ '': ''"

text \<open>The literal part of the message of the handler around gspread.authorize (error during
  gspread authorization).\<close>
definition auth_error_prefix :: string where
  "auth_error_prefix =
     ''gspread '' @ [CHR 0xEC, CHR 0x9D, CHR 0xB8, CHR 0xEC, CHR 0xA6, CHR 0x9D] @ '' '' @ [
       CHR 0xEC, CHR 0xA4, CHR 0x91] @ '' '' @ [CHR 0xEC, CHR 0x98, CHR 0xA4, CHR 0xEB,
       CHR 0xA5, CHR 0x98] @ '' '' @ [CHR 0xEB, CHR 0xB0, CHR 0x9C, CHR 0xEC, CHR 0x83,
       CHR 0x9D] @ '': ''"

text \<open>The literal part after the quoted sheet name in the WorksheetNotFound handler (sheet not
  found, check the sheet name).\<close>
definition sheet_not_found_suffix :: string where
  "sheet_not_found_suffix =
     '' '' @ [CHR 0xEC, CHR 0x8B, CHR 0x9C, CHR 0xED, CHR 0x8A, CHR 0xB8, CHR 0xEB,
       CHR 0xA5, CHR 0xBC] @ '' '' @ [CHR 0xEC, CHR 0xB0, CHR 0xBE, CHR 0xEC, CHR 0x9D,
       CHR 0x84] @ '' '' @ [CHR 0xEC, CHR 0x88, CHR 0x98] @ '' '' @ [CHR 0xEC, CHR 0x97,
       CHR 0x86, CHR 0xEC, CHR 0x8A, CHR 0xB5, CHR 0xEB, CHR 0x8B, CHR 0x88, CHR 0xEB,
       CHR 0x8B, CHR 0xA4] @ ''. '' @ [CHR 0xEC, CHR 0x8B, CHR 0x9C, CHR 0xED, CHR 0x8A,
       CHR 0xB8] @ '' '' @ [CHR 0xEC, CHR 0x9D, CHR 0xB4, CHR 0xEB, CHR 0xA6, CHR 0x84,
       CHR 0xEC, CHR 0x9D, CHR 0x84] @ '' '' @ [CHR 0xED, CHR 0x99, CHR 0x95, CHR 0xEC,
       CHR 0x9D, CHR 0xB8, CHR 0xED, CHR 0x95, CHR 0x98, CHR 0xEC, CHR 0x84, CHR 0xB8,
       CHR 0xEC, CHR 0x9A, CHR 0x94] @ ''.''"

text \<open>The literal part of the message of the catch-all handler of the loader (error while
  loading the sheet).\<close>
definition load_error_prefix :: string where
  "load_error_prefix =
     [CHR 0xEC, CHR 0x8B, CHR 0x9C, CHR 0xED, CHR 0x8A, CHR 0xB8] @ '' '' @ [CHR 0xEB,
       CHR 0xA1, CHR 0x9C, CHR 0xEB, CHR 0x93, CHR 0x9C] @ '' '' @ [CHR 0xEC, CHR 0xA4,
       CHR 0x91] @ '' '' @ [CHR 0xEC, CHR 0x98, CHR 0xA4, CHR 0xEB, CHR 0xA5, CHR 0x98]
     @ '' '' @ [CHR 0xEB, CHR 0xB0, CHR 0x9C, CHR 0xEC, CHR 0x83, CHR 0x9D] @ '': ''"

text \<open>The literal part of the warning that lists the missing columns.\<close>
definition missing_columns_prefix :: string where
  "missing_columns_prefix =
     [CHR 0xEC, CHR 0x8B, CHR 0x9C, CHR 0xED, CHR 0x8A, CHR 0xB8, CHR 0xEC, CHR 0x97,
       CHR 0x90, CHR 0xEC, CHR 0x84, CHR 0x9C] @ '' '' @ [CHR 0xEB, CHR 0x8B, CHR 0xA4,
       CHR 0xEC, CHR 0x9D, CHR 0x8C] @ '' '' @ [CHR 0xEC, CHR 0xBB, CHR 0xAC, CHR 0xEB,
       CHR 0x9F, CHR 0xBC, CHR 0xEC, CHR 0x9D, CHR 0x84] @ '' '' @ [CHR 0xEC, CHR 0xB0,
       CHR 0xBE, CHR 0xEC, CHR 0x9D, CHR 0x84] @ '' '' @ [CHR 0xEC, CHR 0x88, CHR 0x98]
     @ '' '' @ [CHR 0xEC, CHR 0x97, CHR 0x86, CHR 0xEC, CHR 0x8A, CHR 0xB5, CHR 0xEB,
       CHR 0x8B, CHR 0x88, CHR 0xEB, CHR 0x8B, CHR 0xA4] @ '': ''"

text \<open>The header above the table. Code points: U+B370 U+C774 U+D130.\<close>
definition raw_data_header :: string where
  "raw_data_header =
     ''RAW '' @ [CHR 0xEB, CHR 0x8D, CHR 0xB0, CHR 0xEC, CHR 0x9D, CHR 0xB4, CHR 0xED,
       CHR 0x84, CHR 0xB0]"

text \<open>The sidebar header (filter). Code points: U+D544 U+D130.\<close>
definition filter_header :: string where
  "filter_header =
     [CHR 0xED, CHR 0x95, CHR 0x84, CHR 0xED, CHR 0x84, CHR 0xB0]"

text \<open>The label of the select box (choose a cluster). Code points: U+D074 U+B7EC U+C2A4 U+D130
  U+C120 U+D0DD.\<close>
definition cluster_select_label :: string where
  "cluster_select_label =
     [CHR 0xED, CHR 0x81, CHR 0xB4, CHR 0xEB, CHR 0x9F, CHR 0xAC, CHR 0xEC, CHR 0x8A,
       CHR 0xA4, CHR 0xED, CHR 0x84, CHR 0xB0] @ '' '' @ [CHR 0xEC, CHR 0x84, CHR 0xA0,
       CHR 0xED, CHR 0x83, CHR 0x9D] @ '':''"

text \<open>The header above the metric (short summary). Code points: U+AC04 U+B2E8 U+C694 U+C57D.\<close>
definition summary_header :: string where
  "summary_header =
     [CHR 0xEA, CHR 0xB0, CHR 0x84, CHR 0xEB, CHR 0x8B, CHR 0xA8] @ '' '' @ [CHR 0xEC,
       CHR 0x9A, CHR 0x94, CHR 0xEC, CHR 0x95, CHR 0xBD]"

text \<open>The label of the metric (mean accumulated time). Code points: U+D3C9 U+ADE0 U+B204
  U+C801 U+C2DC U+AC04.\<close>
definition metric_label :: string where
  "metric_label =
     [CHR 0xED, CHR 0x8F, CHR 0x89, CHR 0xEA, CHR 0xB7, CHR 0xA0] @ '' '' @ [CHR 0xEB,
       CHR 0x88, CHR 0x84, CHR 0xEC, CHR 0xA0, CHR 0x81] @ '' '' @ [CHR 0xEC, CHR 0x8B,
       CHR 0x9C, CHR 0xEA, CHR 0xB0, CHR 0x84]"

text \<open>The unit suffix of the value of the metric (a blank and the word for hours). Code
  points: U+C2DC U+AC04.\<close>
definition hours_suffix :: string where
  "hours_suffix =
     '' '' @ [CHR 0xEC, CHR 0x8B, CHR 0x9C, CHR 0xEA, CHR 0xB0, CHR 0x84]"

text \<open>app.py: the literal part after the quoted file name (file not found or Streamlit Secrets
  not configured).\<close>
definition app_no_credential_suffix :: string where
  "app_no_credential_suffix =
     '' '' @ [CHR 0xED, CHR 0x8C, CHR 0x8C, CHR 0xEC, CHR 0x9D, CHR 0xBC, CHR 0xEC,
       CHR 0x9D, CHR 0x84] @ '' '' @ [CHR 0xEC, CHR 0xB0, CHR 0xBE, CHR 0xEC, CHR 0x9D,
       CHR 0x84] @ '' '' @ [CHR 0xEC, CHR 0x88, CHR 0x98] @ '' '' @ [CHR 0xEC, CHR 0x97,
       CHR 0x86, CHR 0xEA, CHR 0xB1, CHR 0xB0, CHR 0xEB, CHR 0x82, CHR 0x98]
     @ '' Streamlit Secrets'' @ [CHR 0xEA, CHR 0xB0, CHR 0x80] @ '' '' @ [CHR 0xEC,
       CHR 0x84, CHR 0xA4, CHR 0xEC, CHR 0xA0, CHR 0x95, CHR 0xEB, CHR 0x90, CHR 0x98,
       CHR 0xEC, CHR 0xA7, CHR 0x80] @ '' '' @ [CHR 0xEC, CHR 0x95, CHR 0x8A, CHR 0xEC,
       CHR 0x95, CHR 0x98, CHR 0xEC, CHR 0x8A, CHR 0xB5, CHR 0xEB, CHR 0x8B, CHR 0x88,
       CHR 0xEB, CHR 0x8B, CHR 0xA4] @ ''.''"

text \<open>app.py: none of the requested columns exists in the sheet, check the header of the RAW
  sheet.\<close>
definition app_no_columns_error :: string where
  "app_no_columns_error =
     [CHR 0xEC, CHR 0x9A, CHR 0x94, CHR 0xEC, CHR 0xB2, CHR 0xAD, CHR 0xED, CHR 0x95,
       CHR 0x98, CHR 0xEC, CHR 0x8B, CHR 0xA0] @ '' '' @ [CHR 0xEC, CHR 0xBB, CHR 0xAC,
       CHR 0xEB, CHR 0x9F, CHR 0xBC, CHR 0xEC, CHR 0x9D, CHR 0xB4] @ '' '' @ [CHR 0xEC,
       CHR 0x8B, CHR 0x9C, CHR 0xED, CHR 0x8A, CHR 0xB8, CHR 0xEC, CHR 0x97, CHR 0x90]
     @ '' '' @ [CHR 0xED, CHR 0x95, CHR 0x98, CHR 0xEB, CHR 0x82, CHR 0x98, CHR 0xEB,
       CHR 0x8F, CHR 0x84] @ '' '' @ [CHR 0xEC, CHR 0xA1, CHR 0xB4, CHR 0xEC, CHR 0x9E,
       CHR 0xAC, CHR 0xED, CHR 0x95, CHR 0x98, CHR 0xEC, CHR 0xA7, CHR 0x80] @ '' '' @ [
       CHR 0xEC, CHR 0x95, CHR 0x8A, CHR 0xEC, CHR 0x8A, CHR 0xB5, CHR 0xEB, CHR 0x8B,
       CHR 0x88, CHR 0xEB, CHR 0x8B, CHR 0xA4] @ ''. '' @ [CHR 0x27] @ ''RAW'' @ [CHR 0x27]
     @ '' '' @ [CHR 0xEC, CHR 0x8B, CHR 0x9C, CHR 0xED, CHR 0x8A, CHR 0xB8, CHR 0xEC,
       CHR 0x9D, CHR 0x98] @ '' '' @ [CHR 0xED, CHR 0x97, CHR 0xA4, CHR 0xEB, CHR 0x8D,
       CHR 0x94, CHR 0xEB, CHR 0xA5, CHR 0xBC] @ '' '' @ [CHR 0xED, CHR 0x99, CHR 0x95,
       CHR 0xEC, CHR 0x9D, CHR 0xB8, CHR 0xED, CHR 0x95, CHR 0x98, CHR 0xEC, CHR 0x84,
       CHR 0xB8, CHR 0xEC, CHR 0x9A, CHR 0x94] @ ''.''"

text \<open>app.py: loading the data of the RAW sheet failed, or there is no data.\<close>
definition app_no_data_error :: string where
  "app_no_data_error =
     [CHR 0x27] @ ''RAW'' @ [CHR 0x27] @ '' '' @ [CHR 0xEC, CHR 0x8B, CHR 0x9C, CHR 0xED,
       CHR 0x8A, CHR 0xB8, CHR 0xEC, CHR 0x97, CHR 0x90, CHR 0xEC, CHR 0x84, CHR 0x9C]
     @ '' '' @ [CHR 0xEB, CHR 0x8D, CHR 0xB0, CHR 0xEC, CHR 0x9D, CHR 0xB4, CHR 0xED,
       CHR 0x84, CHR 0xB0, CHR 0xEB, CHR 0xA5, CHR 0xBC] @ '' '' @ [CHR 0xEB, CHR 0xB6,
       CHR 0x88, CHR 0xEB, CHR 0x9F, CHR 0xAC, CHR 0xEC, CHR 0x98, CHR 0xA4, CHR 0xEB,
       CHR 0x8A, CHR 0x94] @ '' '' @ [CHR 0xEB, CHR 0x8D, CHR 0xB0] @ '' '' @ [CHR 0xEC,
       CHR 0x8B, CHR 0xA4, CHR 0xED, CHR 0x8C, CHR 0xA8, CHR 0xED, CHR 0x96, CHR 0x88,
       CHR 0xEA, CHR 0xB1, CHR 0xB0, CHR 0xEB, CHR 0x82, CHR 0x98] @ '' '' @ [CHR 0xEB,
       CHR 0x8D, CHR 0xB0, CHR 0xEC, CHR 0x9D, CHR 0xB4, CHR 0xED, CHR 0x84, CHR 0xB0,
       CHR 0xEA, CHR 0xB0, CHR 0x80] @ '' '' @ [CHR 0xEC, CHR 0x97, CHR 0x86, CHR 0xEC,
       CHR 0x8A, CHR 0xB5, CHR 0xEB, CHR 0x8B, CHR 0x88, CHR 0xEB, CHR 0x8B, CHR 0xA4]
     @ ''.''"

text \<open>app.py: Google Sheets authorization failed, check the credentials.json file.\<close>
definition app_auth_failed_warning :: string where
  "app_auth_failed_warning =
     ''Google Sheets '' @ [CHR 0xEC, CHR 0x9D, CHR 0xB8, CHR 0xEC, CHR 0xA6, CHR 0x9D,
       CHR 0xEC, CHR 0x97, CHR 0x90] @ '' '' @ [CHR 0xEC, CHR 0x8B, CHR 0xA4, CHR 0xED,
       CHR 0x8C, CHR 0xA8, CHR 0xED, CHR 0x96, CHR 0x88, CHR 0xEC, CHR 0x8A, CHR 0xB5,
       CHR 0xEB, CHR 0x8B, CHR 0x88, CHR 0xEB, CHR 0x8B, CHR 0xA4] @ ''. '' @ [CHR 0x27]
     @ ''credentials.json'' @ [CHR 0x27] @ '' '' @ [CHR 0xED, CHR 0x8C, CHR 0x8C, CHR 0xEC,
       CHR 0x9D, CHR 0xBC, CHR 0xEC, CHR 0x9D, CHR 0x84] @ '' '' @ [CHR 0xED, CHR 0x99,
       CHR 0x95, CHR 0xEC, CHR 0x9D, CHR 0xB8, CHR 0xED, CHR 0x95, CHR 0x98, CHR 0xEC,
       CHR 0x84, CHR 0xB8, CHR 0xEC, CHR 0x9A, CHR 0x94] @ ''.''"

text \<open>streamlit_app.py: no credential found.\<close>
definition streamlit_no_credential_error :: string where
  "streamlit_no_credential_error =
     [CHR 0xEC, CHR 0x9D, CHR 0xB8, CHR 0xEC, CHR 0xA6, CHR 0x9D] @ '' '' @ [CHR 0xEC,
       CHR 0xA0, CHR 0x95, CHR 0xEB, CHR 0xB3, CHR 0xB4, CHR 0xEB, CHR 0xA5, CHR 0xBC]
     @ '' '' @ [CHR 0xEC, CHR 0xB0, CHR 0xBE, CHR 0xEC, CHR 0x9D, CHR 0x84] @ '' '' @ [
       CHR 0xEC, CHR 0x88, CHR 0x98] @ '' '' @ [CHR 0xEC, CHR 0x97, CHR 0x86, CHR 0xEC,
       CHR 0x8A, CHR 0xB5, CHR 0xEB, CHR 0x8B, CHR 0x88, CHR 0xEB, CHR 0x8B, CHR 0xA4]
     @ ''.''"

text \<open>streamlit_app.py: locally the credentials.json file is needed, when deployed the Secrets
  setting of Streamlit Cloud.\<close>
definition streamlit_no_credential_hint :: string where
  "streamlit_no_credential_hint =
     [CHR 0xEB, CHR 0xA1, CHR 0x9C, CHR 0xEC, CHR 0xBB, CHR 0xAC, CHR 0xEC, CHR 0x97,
       CHR 0x90, CHR 0xEC, CHR 0x84, CHR 0x9C, CHR 0xEB, CHR 0x8A, CHR 0x94] @ '' '' @ [
       CHR 0x27] @ ''credentials.json'' @ [CHR 0x27] @ '' '' @ [CHR 0xED, CHR 0x8C,
       CHR 0x8C, CHR 0xEC, CHR 0x9D, CHR 0xBC, CHR 0xEC, CHR 0x9D, CHR 0xB4] @ '' '' @ [
       CHR 0xED, CHR 0x95, CHR 0x84, CHR 0xEC, CHR 0x9A, CHR 0x94, CHR 0xED, CHR 0x95,
       CHR 0x98, CHR 0xEA, CHR 0xB3, CHR 0xA0] @ '', '' @ [CHR 0xEB, CHR 0xB0, CHR 0xB0,
       CHR 0xED, CHR 0x8F, CHR 0xAC] @ '' '' @ [CHR 0xEC, CHR 0x8B, CHR 0x9C, CHR 0xEC,
       CHR 0x97, CHR 0x90, CHR 0xEB, CHR 0x8A, CHR 0x94] @ '' Streamlit Cloud'' @ [
       CHR 0xEC, CHR 0x9D, CHR 0x98] @ '' '' @ [CHR 0x27] @ ''Secrets'' @ [CHR 0x27] @ '' '' @ [
       CHR 0xEC, CHR 0x84, CHR 0xA4, CHR 0xEC, CHR 0xA0, CHR 0x95, CHR 0xEC, CHR 0x9D,
       CHR 0xB4] @ '' '' @ [CHR 0xED, CHR 0x95, CHR 0x84, CHR 0xEC, CHR 0x9A, CHR 0x94,
       CHR 0xED, CHR 0x95, CHR 0xA9, CHR 0xEB, CHR 0x8B, CHR 0x88, CHR 0xEB, CHR 0x8B,
       CHR 0xA4] @ ''.''"

text \<open>streamlit_app.py: as in app.py, naming the by-cluster sheet.\<close>
definition streamlit_no_columns_error :: string where
  "streamlit_no_columns_error =
     [CHR 0xEC, CHR 0x9A, CHR 0x94, CHR 0xEC, CHR 0xB2, CHR 0xAD, CHR 0xED, CHR 0x95,
       CHR 0x98, CHR 0xEC, CHR 0x8B, CHR 0xA0] @ '' '' @ [CHR 0xEC, CHR 0xBB, CHR 0xAC,
       CHR 0xEB, CHR 0x9F, CHR 0xBC, CHR 0xEC, CHR 0x9D, CHR 0xB4] @ '' '' @ [CHR 0xEC,
       CHR 0x8B, CHR 0x9C, CHR 0xED, CHR 0x8A, CHR 0xB8, CHR 0xEC, CHR 0x97, CHR 0x90]
     @ '' '' @ [CHR 0xED, CHR 0x95, CHR 0x98, CHR 0xEB, CHR 0x82, CHR 0x98, CHR 0xEB,
       CHR 0x8F, CHR 0x84] @ '' '' @ [CHR 0xEC, CHR 0xA1, CHR 0xB4, CHR 0xEC, CHR 0x9E,
       CHR 0xAC, CHR 0xED, CHR 0x95, CHR 0x98, CHR 0xEC, CHR 0xA7, CHR 0x80] @ '' '' @ [
       CHR 0xEC, CHR 0x95, CHR 0x8A, CHR 0xEC, CHR 0x8A, CHR 0xB5, CHR 0xEB, CHR 0x8B,
       CHR 0x88, CHR 0xEB, CHR 0x8B, CHR 0xA4] @ ''. '' @ [CHR 0x27, CHR 0xED, CHR 0x81,
       CHR 0xB4, CHR 0xEB, CHR 0x9F, CHR 0xAC, CHR 0xEC, CHR 0x8A, CHR 0xA4, CHR 0xED,
       CHR 0x84, CHR 0xB0, CHR 0xEB, CHR 0xB3, CHR 0x84, CHR 0x27] @ '' '' @ [CHR 0xEC,
       CHR 0x8B, CHR 0x9C, CHR 0xED, CHR 0x8A, CHR 0xB8, CHR 0xEC, CHR 0x9D, CHR 0x98]
     @ '' '' @ [CHR 0xED, CHR 0x97, CHR 0xA4, CHR 0xEB, CHR 0x8D, CHR 0x94, CHR 0xEB,
       CHR 0xA5, CHR 0xBC] @ '' '' @ [CHR 0xED, CHR 0x99, CHR 0x95, CHR 0xEC, CHR 0x9D,
       CHR 0xB8, CHR 0xED, CHR 0x95, CHR 0x98, CHR 0xEC, CHR 0x84, CHR 0xB8, CHR 0xEC,
       CHR 0x9A, CHR 0x94] @ ''.''"

text \<open>streamlit_app.py: as in app.py, naming the by-cluster sheet.\<close>
definition streamlit_no_data_error :: string where
  "streamlit_no_data_error =
     [CHR 0x27, CHR 0xED, CHR 0x81, CHR 0xB4, CHR 0xEB, CHR 0x9F, CHR 0xAC, CHR 0xEC,
       CHR 0x8A, CHR 0xA4, CHR 0xED, CHR 0x84, CHR 0xB0, CHR 0xEB, CHR 0xB3, CHR 0x84,
       CHR 0x27] @ '' '' @ [CHR 0xEC, CHR 0x8B, CHR 0x9C, CHR 0xED, CHR 0x8A, CHR 0xB8,
       CHR 0xEC, CHR 0x97, CHR 0x90, CHR 0xEC, CHR 0x84, CHR 0x9C] @ '' '' @ [CHR 0xEB,
       CHR 0x8D, CHR 0xB0, CHR 0xEC, CHR 0x9D, CHR 0xB4, CHR 0xED, CHR 0x84, CHR 0xB0,
       CHR 0xEB, CHR 0xA5, CHR 0xBC] @ '' '' @ [CHR 0xEB, CHR 0xB6, CHR 0x88, CHR 0xEB,
       CHR 0x9F, CHR 0xAC, CHR 0xEC, CHR 0x98, CHR 0xA4, CHR 0xEB, CHR 0x8A, CHR 0x94]
     @ '' '' @ [CHR 0xEB, CHR 0x8D, CHR 0xB0] @ '' '' @ [CHR 0xEC, CHR 0x8B, CHR 0xA4,
       CHR 0xED, CHR 0x8C, CHR 0xA8, CHR 0xED, CHR 0x96, CHR 0x88, CHR 0xEA, CHR 0xB1,
       CHR 0xB0, CHR 0xEB, CHR 0x82, CHR 0x98] @ '' '' @ [CHR 0xEB, CHR 0x8D, CHR 0xB0,
       CHR 0xEC, CHR 0x9D, CHR 0xB4, CHR 0xED, CHR 0x84, CHR 0xB0, CHR 0xEA, CHR 0xB0,
       CHR 0x80] @ '' '' @ [CHR 0xEC, CHR 0x97, CHR 0x86, CHR 0xEC, CHR 0x8A, CHR 0xB5,
       CHR 0xEB, CHR 0x8B, CHR 0x88, CHR 0xEB, CHR 0x8B, CHR 0xA4] @ ''.''"

text \<open>streamlit_app.py: Google Sheets authorization failed (check the Secrets setting or the
  local file).\<close>
definition streamlit_auth_failed_warning :: string where
  "streamlit_auth_failed_warning =
     ''Google Sheets '' @ [CHR 0xEC, CHR 0x9D, CHR 0xB8, CHR 0xEC, CHR 0xA6, CHR 0x9D,
       CHR 0xEC, CHR 0x97, CHR 0x90] @ '' '' @ [CHR 0xEC, CHR 0x8B, CHR 0xA4, CHR 0xED,
       CHR 0x8C, CHR 0xA8, CHR 0xED, CHR 0x96, CHR 0x88, CHR 0xEC, CHR 0x8A, CHR 0xB5,
       CHR 0xEB, CHR 0x8B, CHR 0x88, CHR 0xEB, CHR 0x8B, CHR 0xA4] @ ''. (Secrets '' @ [
       CHR 0xEC, CHR 0x84, CHR 0xA4, CHR 0xEC, CHR 0xA0, CHR 0x95] @ '' '' @ [CHR 0xEB,
       CHR 0x98, CHR 0x90, CHR 0xEB, CHR 0x8A, CHR 0x94] @ '' '' @ [CHR 0xEB, CHR 0xA1,
       CHR 0x9C, CHR 0xEC, CHR 0xBB, CHR 0xAC] @ '' '' @ [CHR 0xED, CHR 0x8C, CHR 0x8C,
       CHR 0xEC, CHR 0x9D, CHR 0xBC] @ '' '' @ [CHR 0xED, CHR 0x99, CHR 0x95, CHR 0xEC,
       CHR 0x9D, CHR 0xB8] @ '')''"

definition display_columns :: "string list" where
  "display_columns = [col_cluster, col_empno, col_name, col_dept, col_hours]"

subsection \<open>Cells, exceptions and data frames\<close>

text \<open>
  A cell of a record or of a DataFrame is a string, a number or the float NaN. The
  integers and floats of Python are both \<open>Num\<close>, identified by their value; binary
  floating point is not modelled, a number is an exact rational.
\<close>

datatype cell = is_Str: Str string | Num rat | NaN

text \<open>Python's \<^verbatim>\<open>==\<close> on two cells: NaN is equal to nothing, not even to itself.\<close>
fun py_eq :: "cell \<Rightarrow> cell \<Rightarrow> bool" where
  "py_eq NaN _ = False"
| "py_eq _ NaN = False"
| "py_eq a b = (a = b)"

datatype exn =
    WorksheetNotFound string
  | KeyError string
  | TypeError string
  | OtherException string

text \<open>\<^verbatim>\<open>str(e)\<close>, as the f-strings of the handlers print it; a KeyError prints the
  repr of its key.\<close>
fun str_exn :: "exn \<Rightarrow> string" where
  "str_exn (WorksheetNotFound m) = m"
| "str_exn (KeyError k) = quoted k"
| "str_exn (TypeError m) = m"
| "str_exn (OtherException m) = m"

text \<open>
  A DataFrame: the column labels, and one association list per row that binds every
  column. \<open>cell_at\<close> reads a row.
\<close>

record dataframe =
  columns :: "string list"
  rows :: "(string \<times> cell) list list"

definition cell_at :: "(string \<times> cell) list \<Rightarrow> string \<Rightarrow> cell" where
  "cell_at r c = (case map_of r c of None \<Rightarrow> NaN | Some v \<Rightarrow> v)"

text \<open>The distinct elements of a list in the order of their first occurrence.\<close>
fun unique :: "'a list \<Rightarrow> 'a list" where
  "unique [] = []"
| "unique (x # xs) = x # unique (removeAll x xs)"

text \<open>
  \<^verbatim>\<open>pd.DataFrame(data)\<close> for a list of dictionaries: the columns are the keys in the order
  in which they first occur, and a key that a record lacks is NaN in its row.
  \<^verbatim>\<open>pd.DataFrame()\<close> is \<open>DataFrame []\<close>.
\<close>
definition DataFrame :: "(string \<times> cell) list list \<Rightarrow> dataframe" where
  "DataFrame data =
     (let cols = unique (concat (map (map fst) data))
      in \<lparr>columns = cols, rows = map (\<lambda>r. map (\<lambda>c. (c, cell_at r c)) cols) data\<rparr>)"

text \<open>\<^verbatim>\<open>df.empty\<close>: an axis of length 0.\<close>
definition df_empty :: "dataframe \<Rightarrow> bool" where
  "df_empty df = (columns df = [] \<or> rows df = [])"

text \<open>\<^verbatim>\<open>df[col]\<close> for one label: the column, or a KeyError.\<close>
definition getitem :: "dataframe \<Rightarrow> string \<Rightarrow> exn + cell list" where
  "getitem df col =
     (if col \<in> set (columns df) then Inr (map (\<lambda>r. cell_at r col) (rows df))
      else Inl (KeyError col))"

text \<open>\<^verbatim>\<open>df[col] = s\<close> for a column that exists: row by row.\<close>
definition setitem :: "dataframe \<Rightarrow> string \<Rightarrow> cell list \<Rightarrow> dataframe" where
  "setitem df col s = df\<lparr>rows := map (\<lambda>(r, v). AList.update col v r) (zip (rows df) s)\<rparr>"

text \<open>\<^verbatim>\<open>df[cols]\<close> for a list of labels: the projection, or a KeyError for the first
  label that is not a column.\<close>
definition getitems :: "dataframe \<Rightarrow> string list \<Rightarrow> exn + dataframe" where
  "getitems df cols =
     (case filter (\<lambda>c. c \<notin> set (columns df)) cols of
        [] \<Rightarrow> Inr \<lparr>columns = cols, rows = map (\<lambda>r. map (\<lambda>c. (c, cell_at r c)) cols) (rows df)\<rparr>
      | c # _ \<Rightarrow> Inl (KeyError c))"

text \<open>\<^verbatim>\<open>df[mask]\<close> for a boolean series: the rows whose mask is true.\<close>
definition getmask :: "dataframe \<Rightarrow> bool list \<Rightarrow> dataframe" where
  "getmask df flags = df\<lparr>rows := map fst (filter snd (zip (rows df) flags))\<rparr>"

subsection \<open>Numeric coercion\<close>

text \<open>
  \<^verbatim>\<open>pd.to_numeric(s, errors='coerce')\<close> keeps a number, and parses a string; what it
  cannot parse is NaN. The parser is pandas' own. It is modelled on plain decimal
  literals: an optional sign, digits, and at most one point with digits on at least one
  side. Any other string counts as unparseable here (the exponent and blank-padded forms
  that pandas also accepts are left out).
\<close>

text \<open>The value of a decimal digit, by its place among the ten digits.\<close>
definition digit_of :: "char \<Rightarrow> nat option" where
  "digit_of c = map_of (zip ''0123456789'' [0, 1, 2, 3, 4, 5, 6, 7, 8, 9]) c"

fun nat_of_digits :: "nat \<Rightarrow> string \<Rightarrow> nat option" where
  "nat_of_digits acc [] = Some acc"
| "nat_of_digits acc (c # cs) =
     (case digit_of c of None \<Rightarrow> None | Some d \<Rightarrow> nat_of_digits (10 * acc + d) cs)"

definition parse_unsigned :: "string \<Rightarrow> rat option" where
  "parse_unsigned s =
     (let ip = takeWhile (\<lambda>c. c \<noteq> CHR ''.'') s; fp = drop (Suc (length ip)) s
      in if ip = [] \<and> fp = [] then None
         else (case (nat_of_digits 0 ip, nat_of_digits 0 fp) of
                 (Some a, Some b) \<Rightarrow> Some (of_nat a + of_nat b / 10 ^ length fp)
               | _ \<Rightarrow> None))"

definition parse_decimal :: "string \<Rightarrow> rat option" where
  "parse_decimal s =
     (case s of
        [] \<Rightarrow> None
      | c # t \<Rightarrow>
          if c = CHR ''-'' then map_option uminus (parse_unsigned t)
          else if c = CHR ''+'' then parse_unsigned t
          else parse_unsigned s)"

fun to_numeric :: "cell \<Rightarrow> cell" where
  "to_numeric (Str s) = (case parse_decimal s of None \<Rightarrow> NaN | Some r \<Rightarrow> Num r)"
| "to_numeric (Num r) = Num r"
| "to_numeric NaN = NaN"

text \<open>\<^verbatim>\<open>.fillna(v)\<close> on one value of a numeric series.\<close>
fun fillna :: "rat \<Rightarrow> cell \<Rightarrow> cell" where
  "fillna v NaN = Num v"
| "fillna v c = c"

subsection \<open>The mean and its one-decimal format\<close>

fun numbers :: "cell list \<Rightarrow> rat list" where
  "numbers [] = []"
| "numbers (Num r # cs) = r # numbers cs"
| "numbers (_ # cs) = numbers cs"

text \<open>
  \<^verbatim>\<open>Series.mean()\<close> skips NaN; over no number at all it is NaN, here \<open>None\<close>. On a
  series that holds a string it raises.
\<close>
definition mean :: "cell list \<Rightarrow> exn + rat option" where
  "mean s =
     (if list_ex is_Str s then Inl (TypeError ''could not convert string to numeric'')
      else (case numbers s of
              [] \<Rightarrow> Inr None
            | x # xs \<Rightarrow> Inr (Some (sum_list (x # xs) / of_nat (length (x # xs))))))"

definition round_half_even :: "rat \<Rightarrow> int" where
  "round_half_even x =
     (let f = \<lfloor>x\<rfloor>; d = x - of_int f
      in if d < 1 / 2 then f else if 1 / 2 < d then f + 1 else if even f then f else f + 1)"

definition digit_char :: "nat \<Rightarrow> char" where
  "digit_char d = ''0123456789'' ! (d mod 10)"

fun str_nat :: "nat \<Rightarrow> string" where
  "str_nat n = (if n < 10 then [digit_char n] else str_nat (n div 10) @ [digit_char (n mod 10)])"

text \<open>
  \<^verbatim>\<open>f"{x:.1f}"\<close> for a float: NaN prints as \<^verbatim>\<open>nan\<close>, a number with one decimal. The
  rounding is that of the exact rational, ties to even.
\<close>
fun format_1f :: "rat option \<Rightarrow> string" where
  "format_1f None = ''nan''"
| "format_1f (Some x) =
     (let m = nat (round_half_even (\<bar>x\<bar> * 10))
      in (if x < 0 then ''-'' else '''') @ str_nat (m div 10) @ ''.'' @ [digit_char (m mod 10)])"

subsection \<open>Scripts: the rendered page and the uncaught exception\<close>

text \<open>The elements a script puts on the page, one constructor per Streamlit call.\<close>

datatype ui =
    SetPageConfig
  | Title string
  | Write string
  | Error string
  | Warning string
  | Header string
  | SidebarHeader string
  | Selectbox string "cell list"
  | ShowDataframe dataframe
  | Metric string string

text \<open>
  A piece of script yields the elements it has rendered so far, and either its value or
  the exception that ended it.
\<close>

type_synonym 'a script = "ui list \<times> (exn + 'a)"

definition ret :: "'a \<Rightarrow> 'a script" where
  "ret a = ([], Inr a)"

definition emit :: "ui \<Rightarrow> unit script" where
  "emit u = ([u], Inr ())"

definition lift :: "exn + 'a \<Rightarrow> 'a script" where
  "lift r = ([], r)"

definition bind_script :: "'a script \<Rightarrow> ('a \<Rightarrow> 'b script) \<Rightarrow> 'b script" where
  "bind_script m f =
     (case m of
        (out, Inl e) \<Rightarrow> (out, Inl e)
      | (out, Inr a) \<Rightarrow> (case f a of (out', r) \<Rightarrow> (out @ out', r)))"

definition seq :: "unit script \<Rightarrow> 'b script \<Rightarrow> 'b script" where
  "seq m n = bind_script m (\<lambda>_. n)"

text \<open>\<^verbatim>\<open>try: body  except Exception as e: handler\<close>. Every exception of the model is
  an \<^verbatim>\<open>Exception\<close>.\<close>
definition try_except :: "'a script \<Rightarrow> (exn \<Rightarrow> 'a script) \<Rightarrow> 'a script" where
  "try_except body handler =
     (case body of
        (out, Inl e) \<Rightarrow> (case handler e of (out', r) \<Rightarrow> (out @ out', r))
      | (out, Inr a) \<Rightarrow> (out, Inr a))"

subsection \<open>The remote service and the environment\<close>

text \<open>
  A gspread client opens a spreadsheet by its URL, a spreadsheet finds a worksheet by
  its name, and a worksheet returns its records, one dictionary per row; each call may
  raise.
\<close>

datatype worksheet = Worksheet (get_all_records: "exn + (string \<times> cell) list list")

datatype spreadsheet = Spreadsheet (worksheet: "string \<Rightarrow> exn + worksheet")

datatype client = Client (open_by_url: "string \<Rightarrow> exn + spreadsheet")

datatype creds = Creds string

text \<open>A value of the secret store: a string, or a table of named values.\<close>
datatype secret = SecretStr string | SecretTable "(string \<times> secret) list"

text \<open>
  What the scripts read of the outside world: \<^verbatim>\<open>os.path.exists\<close>, the two
  constructors of \<^verbatim>\<open>Credentials\<close>, whether \<^verbatim>\<open>st\<close> has the attribute \<^verbatim>\<open>secrets\<close>, the
  secret store, and \<^verbatim>\<open>gspread.authorize\<close>.

  \<^verbatim>\<open>st.secrets\<close> is read from a secrets file on every access. \<open>secrets\<close> is what a
  read yields: the entries of the file, or the exception that Streamlit raises when there
  is no secrets file at all. In a Streamlit release that has \<^verbatim>\<open>st.cache_resource\<close> the
  attribute itself always exists, so \<open>has_secrets\<close> is true there.
\<close>

record env =
  path_exists :: "string \<Rightarrow> bool"
  from_service_account_file :: "string \<Rightarrow> exn + creds"
  has_secrets :: bool
  secrets :: "exn + (string \<times> secret) list"
  from_service_account_info :: "secret \<Rightarrow> exn + creds"
  authorize :: "creds \<Rightarrow> exn + client"

text \<open>\<^verbatim>\<open>key in st.secrets\<close>: the read of the store may raise.\<close>
definition secret_in :: "exn + (string \<times> secret) list \<Rightarrow> string \<Rightarrow> exn + bool" where
  "secret_in store k =
     (case store of Inl e \<Rightarrow> Inl e | Inr s \<Rightarrow> Inr (k \<in> set (map fst s)))"

text \<open>\<^verbatim>\<open>st.secrets[key]\<close>.\<close>
definition secret_at :: "exn + (string \<times> secret) list \<Rightarrow> string \<Rightarrow> exn + secret" where
  "secret_at store k =
     (case store of
        Inl e \<Rightarrow> Inl e
      | Inr s \<Rightarrow> (case map_of s k of None \<Rightarrow> Inl (KeyError k) | Some v \<Rightarrow> Inr v))"

text \<open>\<^verbatim>\<open>st.secrets\<close> itself, handed over as a dictionary.\<close>
definition secret_table :: "exn + (string \<times> secret) list \<Rightarrow> exn + secret" where
  "secret_table store = (case store of Inl e \<Rightarrow> Inl e | Inr s \<Rightarrow> Inr (SecretTable s))"

subsection \<open>Sorting, the select box, the filter and the summary\<close>

text \<open>
  Python's \<^verbatim>\<open><\<close> on two cells: two strings compare by code points, two floats by
  value (NaN is less than nothing), a string and a number raise.
\<close>
fun py_lt :: "cell \<Rightarrow> cell \<Rightarrow> exn + bool" where
  "py_lt (Str a) (Str b) = Inr (a < b)"
| "py_lt (Num a) (Num b) = Inr (a < b)"
| "py_lt (Str a) _ = Inl (TypeError ''not supported between instances'')"
| "py_lt _ (Str b) = Inl (TypeError ''not supported between instances'')"
| "py_lt _ _ = Inr False"

text \<open>
  \<^verbatim>\<open>sorted(xs)\<close>, as an insertion sort that stops at the first comparison that raises.
  On strings alone and on numbers alone the result is the sorted list, whatever the
  algorithm; where NaN stands among numbers, the order CPython returns depends on its own
  algorithm and this one is only one possible order.
\<close>
fun insert_sorted :: "cell \<Rightarrow> cell list \<Rightarrow> exn + cell list" where
  "insert_sorted x [] = Inr [x]"
| "insert_sorted x (y # ys) =
     (case py_lt x y of
        Inl e \<Rightarrow> Inl e
      | Inr True \<Rightarrow> Inr (x # y # ys)
      | Inr False \<Rightarrow> (case insert_sorted x ys of Inl e \<Rightarrow> Inl e | Inr zs \<Rightarrow> Inr (y # zs)))"

fun sorted_py :: "cell list \<Rightarrow> exn + cell list" where
  "sorted_py [] = Inr []"
| "sorted_py (x # xs) = (case sorted_py xs of Inl e \<Rightarrow> Inl e | Inr ys \<Rightarrow> insert_sorted x ys)"

text \<open>\<^verbatim>\<open>sep.join(xs)\<close>.\<close>
fun join :: "string \<Rightarrow> string list \<Rightarrow> string" where
  "join sep [] = []"
| "join sep [x] = x"
| "join sep (x # y # ys) = x @ sep @ join sep (y # ys)"

text \<open>
  \<^verbatim>\<open>st.sidebar.selectbox(label, options)\<close> renders the box and returns the option the
  operator has picked, the first one when nothing (or nothing valid) is picked, and
  \<^verbatim>\<open>None\<close> when there is no option. The operator's pick is the index \<open>choice\<close>.
\<close>
definition selectbox :: "string \<Rightarrow> cell list \<Rightarrow> nat \<Rightarrow> cell option script" where
  "selectbox label options choice =
     seq (emit (Selectbox label options))
         (ret (if options = [] then None
               else Some (options ! (if choice < length options then choice else 0))))"

text \<open>\<^verbatim>\<open>series == value\<close>, element by element.\<close>
definition eq_series :: "cell list \<Rightarrow> cell option \<Rightarrow> bool list" where
  "eq_series s sel = map (\<lambda>v. case sel of None \<Rightarrow> False | Some x \<Rightarrow> py_eq v x) s"

text \<open>The two list comprehensions over \<open>display_columns\<close>, the same in both scripts.\<close>
definition available_columns :: "dataframe \<Rightarrow> string list" where
  "available_columns df_raw = filter (\<lambda>col. col \<in> set (columns df_raw)) display_columns"

definition missing_columns :: "dataframe \<Rightarrow> string list" where
  "missing_columns df_raw = filter (\<lambda>col. col \<notin> set (columns df_raw)) display_columns"

text \<open>The filter of both scripts: the whole table for the first option, the rows of the
  selected cluster otherwise, projected onto the available columns.\<close>
definition df_display :: "dataframe \<Rightarrow> cell option \<Rightarrow> exn + dataframe" where
  "df_display df_raw selected_cluster =
     (if selected_cluster = Some (Str all_clusters_label) then
        getitems df_raw (available_columns df_raw)
      else
        (case getitem df_raw col_cluster of
           Inl e \<Rightarrow> Inl e
         | Inr s \<Rightarrow> getitems (getmask df_raw (eq_series s selected_cluster))
                     (available_columns df_raw)))"

text \<open>The summary of both scripts: the mean of the accumulated-time column of the
  displayed table, as the text of the metric.\<close>
definition avg_hours_text :: "dataframe \<Rightarrow> exn + string" where
  "avg_hours_text df =
     (case getitem df col_hours of
        Inl e \<Rightarrow> Inl e
      | Inr s \<Rightarrow> (case mean s of
                   Inl e \<Rightarrow> Inl e
                 | Inr avg_hours \<Rightarrow> Inr (format_1f avg_hours @ hours_suffix)))"

subsection \<open>app.py\<close>

text \<open>
  The condition of the \<^verbatim>\<open>elif\<close> is a piece of script of its own: \<^verbatim>\<open>and\<close> reads the
  secret store only when the attribute exists, and that read may raise, outside the
  \<^verbatim>\<open>try\<close>, which encloses \<^verbatim>\<open>gspread.authorize\<close> alone.
\<close>
definition app_authorize_gspread :: "env \<Rightarrow> client option script" where
  "app_authorize_gspread env =
     (if path_exists env SERVICE_ACCOUNT_FILE then
        bind_script (lift (from_service_account_file env SERVICE_ACCOUNT_FILE)) (\<lambda>creds.
        try_except
          (bind_script (lift (authorize env creds)) (\<lambda>client. ret (Some client)))
          (\<lambda>e. seq (emit (Error (auth_error_prefix @ str_exn e))) (ret None)))
      else
        bind_script
          (if has_secrets env then lift (secret_in (secrets env) ''gcp_service_account'')
           else ret False) (\<lambda>configured.
        if configured then
          bind_script (lift (secret_at (secrets env) ''gcp_service_account'')) (\<lambda>creds_dict.
          bind_script (lift (from_service_account_info env creds_dict)) (\<lambda>creds.
          try_except
            (bind_script (lift (authorize env creds)) (\<lambda>client. ret (Some client)))
            (\<lambda>e. seq (emit (Error (auth_error_prefix @ str_exn e))) (ret None))))
        else
          seq (emit (Error (quoted SERVICE_ACCOUNT_FILE @ app_no_credential_suffix)))
              (ret None)))"

definition app_load_simple_data :: "client option \<Rightarrow> string \<Rightarrow> string \<Rightarrow> dataframe script" where
  "app_load_simple_data client sheet_url sheet_name =
     (case client of
        None \<Rightarrow> ret (DataFrame [])
      | Some c \<Rightarrow>
          try_except
            (bind_script (lift (open_by_url c sheet_url)) (\<lambda>spreadsheet.
             bind_script (lift (worksheet spreadsheet sheet_name)) (\<lambda>ws.
             bind_script (lift (get_all_records ws)) (\<lambda>data.
             let df = DataFrame data
             in if col_hours \<in> set (columns df) then
                  bind_script (lift (getitem df col_hours)) (\<lambda>s.
                  ret (setitem df col_hours (map (\<lambda>v. fillna 0 (to_numeric v)) s)))
                else ret df))))
            (\<lambda>e. case e of
                   WorksheetNotFound m \<Rightarrow>
                     seq (emit (Error (quoted sheet_name @ sheet_not_found_suffix)))
                         (ret (DataFrame []))
                 | _ \<Rightarrow>
                     seq (emit (Error (load_error_prefix @ str_exn e)))
                         (ret (DataFrame []))))"

text \<open>Lines 83 to 118 of app.py: what is rendered for a table that is not empty.\<close>
definition app_view :: "dataframe \<Rightarrow> nat \<Rightarrow> unit script" where
  "app_view df_raw choice =
     seq (if missing_columns df_raw \<noteq> [] then
            emit (Warning (missing_columns_prefix @ join '', '' (missing_columns df_raw)))
          else ret ())
     (if available_columns df_raw \<noteq> [] then
        seq (emit (Header raw_data_header))
       (seq (emit (SidebarHeader filter_header))
       (bind_script (lift (getitem df_raw col_cluster)) (\<lambda>clusters.
        bind_script (lift (sorted_py (unique clusters))) (\<lambda>sorted_clusters.
        bind_script (selectbox cluster_select_label
                       (Str all_clusters_label # sorted_clusters) choice) (\<lambda>selected_cluster.
        bind_script (lift (df_display df_raw selected_cluster)) (\<lambda>shown.
        seq (emit (ShowDataframe shown))
       (seq (emit (Header summary_header))
       (bind_script (lift (avg_hours_text shown)) (\<lambda>text.
        emit (Metric metric_label text))))))))))
      else emit (Error app_no_columns_error))"

text \<open>Lines 81 to 121 of app.py: the branch on \<^verbatim>\<open>df_raw.empty\<close>.\<close>
definition app_compose :: "dataframe \<Rightarrow> nat \<Rightarrow> unit script" where
  "app_compose df_raw choice =
     (if \<not> df_empty df_raw then app_view df_raw choice
      else emit (Error app_no_data_error))"

text \<open>
  The script app.py, run once. The decorators \<^verbatim>\<open>st.cache_resource\<close> and
  \<^verbatim>\<open>st.cache_data\<close> replay an earlier result and are not modelled.
\<close>
definition app_main :: "env \<Rightarrow> nat \<Rightarrow> unit script" where
  "app_main env choice =
     seq (emit SetPageConfig)
    (seq (emit (Title page_title))
    (seq (emit (Write (target_sheet_prefix @ SHEET_URL)))
    (bind_script (app_authorize_gspread env) (\<lambda>client.
       case client of
         Some c \<Rightarrow>
           bind_script (app_load_simple_data (Some c) SHEET_URL default_sheet_name) (\<lambda>df_raw.
             app_compose df_raw choice)
       | None \<Rightarrow> emit (Warning app_auth_failed_warning)))))"

subsection \<open>streamlit_app.py\<close>

definition streamlit_authorize_gspread :: "env \<Rightarrow> client option script" where
  "streamlit_authorize_gspread env =
     (if path_exists env SERVICE_ACCOUNT_FILE then
        bind_script (lift (from_service_account_file env SERVICE_ACCOUNT_FILE)) (\<lambda>creds.
        try_except
          (bind_script (lift (authorize env creds)) (\<lambda>client. ret (Some client)))
          (\<lambda>e. seq (emit (Error (auth_error_prefix @ str_exn e))) (ret None)))
      else
        bind_script
          (if has_secrets env then lift (secret_in (secrets env) ''private_key'')
           else ret False) (\<lambda>configured.
        if configured then
          bind_script (lift (secret_table (secrets env))) (\<lambda>creds_dict.
          bind_script (lift (from_service_account_info env creds_dict)) (\<lambda>creds.
          try_except
            (bind_script (lift (authorize env creds)) (\<lambda>client. ret (Some client)))
            (\<lambda>e. seq (emit (Error (auth_error_prefix @ str_exn e))) (ret None))))
        else
          seq (emit (Error streamlit_no_credential_error))
         (seq (emit (Error streamlit_no_credential_hint)) (ret None))))"

definition streamlit_load_simple_data ::
    "client option \<Rightarrow> string \<Rightarrow> string \<Rightarrow> dataframe script" where
  "streamlit_load_simple_data client sheet_url sheet_name =
     (case client of
        None \<Rightarrow> ret (DataFrame [])
      | Some c \<Rightarrow>
          try_except
            (bind_script (lift (open_by_url c sheet_url)) (\<lambda>spreadsheet.
             bind_script (lift (worksheet spreadsheet sheet_name)) (\<lambda>ws.
             bind_script (lift (get_all_records ws)) (\<lambda>data.
             let df = DataFrame data
             in if col_hours \<in> set (columns df) then
                  bind_script (lift (getitem df col_hours)) (\<lambda>s.
                  ret (setitem df col_hours (map (\<lambda>v. fillna 0 (to_numeric v)) s)))
                else ret df))))
            (\<lambda>e. case e of
                   WorksheetNotFound m \<Rightarrow>
                     seq (emit (Error (quoted sheet_name @ sheet_not_found_suffix)))
                         (ret (DataFrame []))
                 | _ \<Rightarrow>
                     seq (emit (Error (load_error_prefix @ str_exn e)))
                         (ret (DataFrame []))))"

text \<open>Lines 85 to 111 of streamlit_app.py.\<close>
definition streamlit_view :: "dataframe \<Rightarrow> nat \<Rightarrow> unit script" where
  "streamlit_view df_raw choice =
     seq (if missing_columns df_raw \<noteq> [] then
            emit (Warning (missing_columns_prefix @ join '', '' (missing_columns df_raw)))
          else ret ())
     (if available_columns df_raw \<noteq> [] then
        seq (emit (Header raw_data_header))
       (seq (emit (SidebarHeader filter_header))
       (bind_script (lift (getitem df_raw col_cluster)) (\<lambda>clusters.
        bind_script (lift (sorted_py (unique clusters))) (\<lambda>sorted_clusters.
        bind_script (selectbox cluster_select_label
                       (Str all_clusters_label # sorted_clusters) choice) (\<lambda>selected_cluster.
        bind_script (lift (df_display df_raw selected_cluster)) (\<lambda>shown.
        seq (emit (ShowDataframe shown))
       (seq (emit (Header summary_header))
       (bind_script (lift (avg_hours_text shown)) (\<lambda>text.
        emit (Metric metric_label text))))))))))
      else emit (Error streamlit_no_columns_error))"

text \<open>Lines 84 to 114 of streamlit_app.py.\<close>
definition streamlit_compose :: "dataframe \<Rightarrow> nat \<Rightarrow> unit script" where
  "streamlit_compose df_raw choice =
     (if \<not> df_empty df_raw then streamlit_view df_raw choice
      else emit (Error streamlit_no_data_error))"

definition streamlit_main :: "env \<Rightarrow> nat \<Rightarrow> unit script" where
  "streamlit_main env choice =
     seq (emit SetPageConfig)
    (seq (emit (Title page_title))
    (seq (emit (Write (target_sheet_prefix @ SHEET_URL)))
    (bind_script (streamlit_authorize_gspread env) (\<lambda>client.
       case client of
         Some c \<Rightarrow>
           bind_script (streamlit_load_simple_data (Some c) SHEET_URL default_sheet_name)
             (\<lambda>df_raw. streamlit_compose df_raw choice)
       | None \<Rightarrow> emit (Warning streamlit_auth_failed_warning)))))"

subsection \<open>Observing a page\<close>

text \<open>The elements that carry data of the table: the select box with its options, the
  table and the metric.\<close>
fun data_element :: "ui \<Rightarrow> bool" where
  "data_element (Selectbox label options) = True"
| "data_element (ShowDataframe df) = True"
| "data_element (Metric label text) = True"
| "data_element _ = False"

text \<open>An element with the wording of an error or a warning left out.\<close>
fun without_text :: "ui \<Rightarrow> ui" where
  "without_text (Error s) = Error []"
| "without_text (Warning s) = Warning []"
| "without_text u = u"

subsection \<open>Concrete worlds\<close>

text \<open>A client whose every spreadsheet and worksheet holds the given records.\<close>
definition serve :: "(string \<times> cell) list list \<Rightarrow> client" where
  "serve records = Client (\<lambda>url. Inr (Spreadsheet (\<lambda>name. Inr (Worksheet (Inr records)))))"

text \<open>The exception of a read of the secret store when there is no secrets file.\<close>
definition no_secrets_file :: exn where
  "no_secrets_file = OtherException ''No secrets found''"

text \<open>An environment with the credential file and no secrets file, whose authorization
  yields the client.\<close>
definition local_env :: "client \<Rightarrow> env" where
  "local_env c =
     \<lparr>path_exists = (\<lambda>p. p = SERVICE_ACCOUNT_FILE),
      from_service_account_file = (\<lambda>p. Inr (Creds p)),
      has_secrets = True,
      secrets = Inl no_secrets_file,
      from_service_account_info = (\<lambda>s. Inl (OtherException ''no service account info'')),
      authorize = (\<lambda>cr. Inr c)\<rparr>"

text \<open>Three rows with all five columns; the accumulated times are the strings
  \<^verbatim>\<open>20\<close>, the empty string and \<^verbatim>\<open>15.5\<close>.\<close>
definition scenario_A :: "(string \<times> cell) list list" where
  "scenario_A =
     [[(col_cluster, Str ''A''), (col_empno, Num 1), (col_name, Str ''Kim''),
       (col_dept, Str ''Sales''), (col_hours, Str ''20'')],
      [(col_cluster, Str ''B''), (col_empno, Num 2), (col_name, Str ''Lee''),
       (col_dept, Str ''Sales''), (col_hours, Str '''')],
      [(col_cluster, Str ''A''), (col_empno, Num 3), (col_name, Str ''Park''),
       (col_dept, Str ''Audit''), (col_hours, Str ''15.5'')]]"

text \<open>Three records of which the second lacks the accumulated time.\<close>
definition partial_records :: "(string \<times> cell) list list" where
  "partial_records =
     [[(col_cluster, Str ''A''), (col_hours, Str ''abc'')],
      [(col_cluster, Str ''A'')],
      [(col_cluster, Str ''B''), (col_hours, Str ''12.5'')]]"

text \<open>A client whose spreadsheet has no worksheet of any name.\<close>
definition no_such_sheet_client :: client where
  "no_such_sheet_client = Client (\<lambda>url. Inr (Spreadsheet (\<lambda>name. Inl (WorksheetNotFound name))))"

text \<open>A client that cannot reach the service.\<close>
definition unreachable_client :: client where
  "unreachable_client = Client (\<lambda>url. Inl (OtherException ''connection refused''))"

text \<open>An environment without the credential file, whose secrets file holds no entry.\<close>
definition bare_env :: env where
  "bare_env =
     \<lparr>path_exists = (\<lambda>p. False),
      from_service_account_file = (\<lambda>p. Inl (OtherException ''no such file'')),
      has_secrets = True,
      secrets = Inr [],
      from_service_account_info = (\<lambda>s. Inl (OtherException ''no service account info'')),
      authorize = (\<lambda>cr. Inl (OtherException ''no credentials''))\<rparr>"

text \<open>An environment with neither the credential file nor a secrets file.\<close>
definition unconfigured_env :: env where
  "unconfigured_env =
     \<lparr>path_exists = (\<lambda>p. False),
      from_service_account_file = (\<lambda>p. Inl (OtherException ''no such file'')),
      has_secrets = True,
      secrets = Inl no_secrets_file,
      from_service_account_info = (\<lambda>s. Inl (OtherException ''no service account info'')),
      authorize = (\<lambda>cr. Inl (OtherException ''no credentials''))\<rparr>"

text \<open>An environment with the credential file, whose authorization is refused.\<close>
definition refused_env :: env where
  "refused_env =
     \<lparr>path_exists = (\<lambda>p. p = SERVICE_ACCOUNT_FILE),
      from_service_account_file = (\<lambda>p. Inr (Creds p)),
      has_secrets = True,
      secrets = Inl no_secrets_file,
      from_service_account_info = (\<lambda>s. Inl (OtherException ''no service account info'')),
      authorize = (\<lambda>cr. Inl (OtherException ''invalid_grant''))\<rparr>"

text \<open>Scenario B: two rows without the department column.\<close>
definition scenario_B :: "(string \<times> cell) list list" where
  "scenario_B =
     [[(col_cluster, Str ''A''), (col_empno, Num 1), (col_name, Str ''Kim''),
       (col_hours, Num 20)],
      [(col_cluster, Str ''B''), (col_empno, Num 2), (col_name, Str ''Lee''),
       (col_hours, Num 4)]]"

text \<open>One row without the cluster column, and one row without the accumulated time.\<close>
definition no_cluster_records :: "(string \<times> cell) list list" where
  "no_cluster_records =
     [[(col_empno, Num 1), (col_name, Str ''Kim''), (col_dept, Str ''Sales''),
       (col_hours, Num 20)]]"

definition no_hours_records :: "(string \<times> cell) list list" where
  "no_hours_records =
     [[(col_cluster, Str ''A''), (col_empno, Num 1), (col_name, Str ''Kim''),
       (col_dept, Str ''Sales'')]]"

text \<open>One row whose columns are none of the wanted ones.\<close>
definition foreign_records :: "(string \<times> cell) list list" where
  "foreign_records = [[(''id'', Num 7), (''team'', Str ''A'')]]"

text \<open>Three rows whose clusters are numbers.\<close>
definition numeric_cluster_records :: "(string \<times> cell) list list" where
  "numeric_cluster_records =
     [[(col_cluster, Num 1), (col_empno, Num 11), (col_hours, Num 2)],
      [(col_cluster, Num 2), (col_empno, Num 12), (col_hours, Num 4)],
      [(col_cluster, Num 1), (col_empno, Num 13), (col_hours, Num 6)]]"

text \<open>One row whose cluster is the float NaN.\<close>
definition nan_cluster_records :: "(string \<times> cell) list list" where
  "nan_cluster_records = [[(col_cluster, NaN), (col_hours, Num 5)]]"

text \<open>An environment without the credential file whose secret store holds the service
  account both under the key of app.py and at its top level.\<close>
definition secret_env :: "client \<Rightarrow> env" where
  "secret_env c =
     \<lparr>path_exists = (\<lambda>p. False),
      from_service_account_file = (\<lambda>p. Inl (OtherException ''no such file'')),
      has_secrets = True,
      secrets =
        Inr [(''gcp_service_account'', SecretTable [(''private_key'', SecretStr ''key'')]),
             (''private_key'', SecretStr ''key'')],
      from_service_account_info = (\<lambda>s. Inr (Creds ''secret'')),
      authorize = (\<lambda>cr. Inr c)\<rparr>"

section \<open>Properties\<close>

subsection \<open>Running a script\<close>

lemma bind_script_simps [simp]:
  "bind_script (out, Inl e) f = (out, Inl e)"
  "bind_script (out, Inr a) f = (out @ fst (f a), snd (f a))"
  by (simp_all add: bind_script_def split: prod.splits)

lemma try_except_simps [simp]:
  "try_except (out, Inl e) h = (out @ fst (h e), snd (h e))"
  "try_except (out, Inr a) h = (out, Inr a)"
  by (simp_all add: try_except_def split: prod.splits)

subsection \<open>Reading and writing a column\<close>

lemma cell_at_bound: "c \<in> set cols \<Longrightarrow> cell_at (map (\<lambda>c. (c, f c)) cols) c = f c"
  by (induction cols) (auto simp: cell_at_def)

lemma cell_at_update: "cell_at (AList.update c v r) c = v"
  by (simp add: cell_at_def update_conv')

lemma getitem_DataFrame:
  "col \<in> set (columns (DataFrame data)) \<Longrightarrow>
   getitem (DataFrame data) col = Inr (map (\<lambda>r. cell_at r col) data)"
  by (simp add: getitem_def DataFrame_def Let_def cell_at_bound comp_def)

lemma map_update_zip:
  "length rs = length s \<Longrightarrow>
   map ((\<lambda>r. cell_at r col) \<circ> (\<lambda>(r, v). AList.update col v r)) (zip rs s) = s"
  by (induction rs s rule: list_induct2) (simp_all add: cell_at_update)

lemma getitem_setitem:
  "col \<in> set (columns df) \<Longrightarrow> length s = length (rows df) \<Longrightarrow>
   getitem (setitem df col s) col = Inr s"
  by (simp add: getitem_def setitem_def map_update_zip)

lemma rows_DataFrame: "length (rows (DataFrame data)) = length data"
  by (simp add: DataFrame_def Let_def)

lemma app_load_fetched:
  assumes "open_by_url c url = Inr ss" "worksheet ss name = Inr ws"
    "get_all_records ws = Inr data" "col_hours \<in> set (columns (DataFrame data))"
  shows "app_load_simple_data (Some c) url name =
     ([], Inr (setitem (DataFrame data) col_hours
                 (map (\<lambda>r. fillna 0 (to_numeric (cell_at r col_hours))) data)))"
  using assms by (simp add: app_load_simple_data_def lift_def ret_def getitem_DataFrame comp_def)

lemma streamlit_load_fetched:
  assumes "open_by_url c url = Inr ss" "worksheet ss name = Inr ws"
    "get_all_records ws = Inr data" "col_hours \<in> set (columns (DataFrame data))"
  shows "streamlit_load_simple_data (Some c) url name =
     ([], Inr (setitem (DataFrame data) col_hours
                 (map (\<lambda>r. fillna 0 (to_numeric (cell_at r col_hours))) data)))"
  using assms
  by (simp add: streamlit_load_simple_data_def lift_def ret_def getitem_DataFrame comp_def)

subsection \<open>The loader\<close>

text \<open>
  C1. In both scripts a load that fetches the records returns, without any message, a
  table whose accumulated-time column is the fetched column coerced row by row: a number
  is kept, a string is parsed, and what does not parse, or is absent from its record,
  becomes 0. So \<^verbatim>\<open>abc\<close>, the empty string and a missing value give 0, and \<^verbatim>\<open>12.5\<close>
  gives 12.5. For the three rows of scenario A the coerced column is 20, 0, 15.5; its
  mean is 71/6, within 0.05 of 11.8, and both scripts show the metric \<^verbatim>\<open>11.8\<close> with the
  unit when no cluster is selected.
\<close>
theorem accumulated_time_coerced:
  "(\<forall>c url name ss ws data.
      open_by_url c url = Inr ss \<longrightarrow> worksheet ss name = Inr ws \<longrightarrow>
      get_all_records ws = Inr data \<longrightarrow> col_hours \<in> set (columns (DataFrame data)) \<longrightarrow>
      (\<exists>df. app_load_simple_data (Some c) url name = ([], Inr df) \<and>
            streamlit_load_simple_data (Some c) url name = ([], Inr df) \<and>
            getitem df col_hours =
              Inr (map (\<lambda>r. fillna 0 (to_numeric (cell_at r col_hours))) data)))
   \<and> (\<forall>s. parse_decimal s = None \<longrightarrow> fillna 0 (to_numeric (Str s)) = Num 0)
   \<and> (\<forall>s x. parse_decimal s = Some x \<longrightarrow> fillna 0 (to_numeric (Str s)) = Num x)
   \<and> (\<forall>r. map_of r col_hours = None \<longrightarrow> fillna 0 (to_numeric (cell_at r col_hours)) = Num 0)
   \<and> fillna 0 (to_numeric (Str ''abc'')) = Num 0
   \<and> fillna 0 (to_numeric (Str '''')) = Num 0
   \<and> fillna 0 (to_numeric NaN) = Num 0
   \<and> fillna 0 (to_numeric (Str ''12.5'')) = Num (25 / 2)
   \<and> map (\<lambda>r. fillna 0 (to_numeric (cell_at r col_hours))) scenario_A
        = [Num 20, Num 0, Num (31 / 2)]
   \<and> mean [Num 20, Num 0, Num (31 / 2)] = Inr (Some (71 / 6))
   \<and> \<bar>71 / 6 - 118 / 10\<bar> < (1 / 20 :: rat)
   \<and> last (fst (app_main (local_env (serve scenario_A)) 0))
        = Metric metric_label (''11.8'' @ hours_suffix)
   \<and> last (fst (streamlit_main (local_env (serve scenario_A)) 0))
        = Metric metric_label (''11.8'' @ hours_suffix)"
proof -
  have general: "\<exists>df. app_load_simple_data (Some c) url name = ([], Inr df) \<and>
            streamlit_load_simple_data (Some c) url name = ([], Inr df) \<and>
            getitem df col_hours =
              Inr (map (\<lambda>r. fillna 0 (to_numeric (cell_at r col_hours))) data)"
    if "open_by_url c url = Inr ss" "worksheet ss name = Inr ws"
      "get_all_records ws = Inr data" "col_hours \<in> set (columns (DataFrame data))"
    for c url name ss ws data
    using that app_load_fetched [OF that] streamlit_load_fetched [OF that]
    by (simp add: getitem_setitem rows_DataFrame)
  have absent: "fillna 0 (to_numeric (cell_at r col_hours)) = Num 0"
    if "map_of r col_hours = None" for r
    using that by (simp add: cell_at_def)
  have abc: "fillna 0 (to_numeric (Str ''abc'')) = Num 0" by code_simp
  have blank: "fillna 0 (to_numeric (Str '''')) = Num 0" by code_simp
  have twelve: "fillna 0 (to_numeric (Str ''12.5'')) = Num (25 / 2)" by code_simp
  have column: "map (\<lambda>r. fillna 0 (to_numeric (cell_at r col_hours))) scenario_A
        = [Num 20, Num 0, Num (31 / 2)]" by code_simp
  have avg: "mean [Num 20, Num 0, Num (31 / 2)] = Inr (Some (71 / 6))" by code_simp
  have app: "last (fst (app_main (local_env (serve scenario_A)) 0))
        = Metric metric_label (''11.8'' @ hours_suffix)" by code_simp
  have streamlit: "last (fst (streamlit_main (local_env (serve scenario_A)) 0))
        = Metric metric_label (''11.8'' @ hours_suffix)" by code_simp
  show ?thesis
    using general absent abc blank twelve column avg app streamlit by simp
qed

text \<open>The theorem at three records: one unparseable, one absent, one decimal.\<close>
theorem accumulated_time_coerced_witness:
  "\<exists>df. app_load_simple_data (Some (serve partial_records)) SHEET_URL default_sheet_name
          = ([], Inr df) \<and>
        streamlit_load_simple_data (Some (serve partial_records)) SHEET_URL default_sheet_name
          = ([], Inr df) \<and>
        getitem df col_hours = Inr [Num 0, Num 0, Num (25 / 2)]"
proof -
  have cols: "col_hours \<in> set (columns (DataFrame partial_records))" by code_simp
  have vals: "map (\<lambda>r. fillna 0 (to_numeric (cell_at r col_hours))) partial_records
     = [Num 0, Num 0, Num (25 / 2)]" by code_simp
  show ?thesis
    using accumulated_time_coerced [THEN conjunct1, rule_format,
        of "serve partial_records" SHEET_URL "Spreadsheet (\<lambda>name. Inr (Worksheet (Inr partial_records)))"
           default_sheet_name "Worksheet (Inr partial_records)" partial_records] cols vals
    by (simp add: serve_def)
qed

lemma streamlit_load_eq_app: "streamlit_load_simple_data = app_load_simple_data"
  by (simp add: fun_eq_iff streamlit_load_simple_data_def app_load_simple_data_def)

lemma app_load_cases:
  "app_load_simple_data (Some c) url name =
     (case open_by_url c url of
        Inl e \<Rightarrow> ([Error (case e of WorksheetNotFound m \<Rightarrow> quoted name @ sheet_not_found_suffix
                            | _ \<Rightarrow> load_error_prefix @ str_exn e)], Inr (DataFrame []))
      | Inr ss \<Rightarrow>
          (case worksheet ss name of
             Inl e \<Rightarrow> ([Error (case e of WorksheetNotFound m \<Rightarrow> quoted name @ sheet_not_found_suffix
                                 | _ \<Rightarrow> load_error_prefix @ str_exn e)], Inr (DataFrame []))
           | Inr ws \<Rightarrow>
               (case get_all_records ws of
                  Inl e \<Rightarrow> ([Error (case e of WorksheetNotFound m \<Rightarrow> quoted name @ sheet_not_found_suffix
                                      | _ \<Rightarrow> load_error_prefix @ str_exn e)], Inr (DataFrame []))
                | Inr data \<Rightarrow>
                    ([], Inr (if col_hours \<in> set (columns (DataFrame data))
                              then setitem (DataFrame data) col_hours
                                     (map (\<lambda>r. fillna 0 (to_numeric (cell_at r col_hours))) data)
                              else DataFrame data)))))"
  by (simp add: app_load_simple_data_def lift_def ret_def emit_def seq_def getitem_DataFrame comp_def
      split: sum.splits exn.splits)

lemma app_load_None: "app_load_simple_data None url name = ([], Inr (DataFrame []))"
  by (simp add: app_load_simple_data_def ret_def)

lemma df_empty_DataFrame_Nil: "df_empty (DataFrame [])"
  by (simp add: df_empty_def DataFrame_def)

text \<open>
  C6. In both scripts the load returns a table and never an exception, whatever the
  client and the service do. Without a client it returns the empty table and reports
  nothing. When the worksheet of that name does not exist it reports that the sheet was
  not found and returns the empty table. When opening the document, finding the worksheet
  or fetching the records fails in any other way, it reports a load error with the text of
  the exception and returns the empty table.
\<close>
theorem load_never_raises:
  "(\<exists>out df. app_load_simple_data client url name = (out, Inr df))
   \<and> (\<exists>out df. streamlit_load_simple_data client url name = (out, Inr df))
   \<and> df_empty (DataFrame [])
   \<and> app_load_simple_data None url name = ([], Inr (DataFrame []))
   \<and> streamlit_load_simple_data None url name = ([], Inr (DataFrame []))
   \<and> (\<forall>c ss m. open_by_url c url = Inr ss \<longrightarrow> worksheet ss name = Inl (WorksheetNotFound m) \<longrightarrow>
         app_load_simple_data (Some c) url name
           = ([Error (quoted name @ sheet_not_found_suffix)], Inr (DataFrame [])) \<and>
         streamlit_load_simple_data (Some c) url name
           = ([Error (quoted name @ sheet_not_found_suffix)], Inr (DataFrame [])))
   \<and> (\<forall>c e. (\<forall>m. e \<noteq> WorksheetNotFound m) \<longrightarrow>
         (open_by_url c url = Inl e \<or>
          (\<exists>ss. open_by_url c url = Inr ss \<and>
             (worksheet ss name = Inl e \<or>
              (\<exists>ws. worksheet ss name = Inr ws \<and> get_all_records ws = Inl e)))) \<longrightarrow>
         app_load_simple_data (Some c) url name
           = ([Error (load_error_prefix @ str_exn e)], Inr (DataFrame [])) \<and>
         streamlit_load_simple_data (Some c) url name
           = ([Error (load_error_prefix @ str_exn e)], Inr (DataFrame [])))"
proof -
  have total: "\<exists>out df. app_load_simple_data client url name = (out, Inr df)"
  proof (cases client)
    case None
    then show ?thesis by (simp add: app_load_None)
  next
    case (Some c)
    then show ?thesis by (simp add: app_load_cases split: sum.splits)
  qed
  have missing: "app_load_simple_data (Some c) url name
           = ([Error (quoted name @ sheet_not_found_suffix)], Inr (DataFrame []))"
    if "open_by_url c url = Inr ss" "worksheet ss name = Inl (WorksheetNotFound m)" for c ss m
    using that by (simp add: app_load_cases)
  have other: "app_load_simple_data (Some c) url name
           = ([Error (load_error_prefix @ str_exn e)], Inr (DataFrame []))"
    if "\<forall>m. e \<noteq> WorksheetNotFound m"
      and "open_by_url c url = Inl e \<or>
          (\<exists>ss. open_by_url c url = Inr ss \<and>
             (worksheet ss name = Inl e \<or>
              (\<exists>ws. worksheet ss name = Inr ws \<and> get_all_records ws = Inl e)))" for c e
    using that by (cases e) (auto simp: app_load_cases)
  show ?thesis
    unfolding streamlit_load_eq_app
    using total missing other by (simp add: app_load_None df_empty_DataFrame_Nil)
qed

text \<open>The theorem at a document without the worksheet, and at an unreachable service.\<close>
theorem load_never_raises_witness:
  "app_load_simple_data (Some no_such_sheet_client) SHEET_URL default_sheet_name
     = ([Error (quoted default_sheet_name @ sheet_not_found_suffix)], Inr (DataFrame []))
   \<and> streamlit_load_simple_data (Some unreachable_client) SHEET_URL default_sheet_name
     = ([Error (load_error_prefix @ ''connection refused'')], Inr (DataFrame []))"
proof -
  have a: "open_by_url no_such_sheet_client SHEET_URL
      = Inr (Spreadsheet (\<lambda>name. Inl (WorksheetNotFound name)))"
    by (simp add: no_such_sheet_client_def)
  have b: "open_by_url unreachable_client SHEET_URL = Inl (OtherException ''connection refused'')"
    by (simp add: unreachable_client_def)
  from load_never_raises [of None SHEET_URL default_sheet_name]
  have sheet: "app_load_simple_data (Some no_such_sheet_client) SHEET_URL default_sheet_name
     = ([Error (quoted default_sheet_name @ sheet_not_found_suffix)], Inr (DataFrame []))"
    and net: "streamlit_load_simple_data (Some unreachable_client) SHEET_URL default_sheet_name
     = ([Error (load_error_prefix @ str_exn (OtherException ''connection refused''))],
        Inr (DataFrame []))"
    using a b by (auto simp del: str_exn.simps)
  then show ?thesis by simp
qed

subsection \<open>Credential resolution\<close>

lemma app_authorize_file:
  "path_exists env SERVICE_ACCOUNT_FILE \<Longrightarrow>
   app_authorize_gspread env =
     (case from_service_account_file env SERVICE_ACCOUNT_FILE of
        Inl e \<Rightarrow> ([], Inl e)
      | Inr cr \<Rightarrow>
          (case authorize env cr of
             Inl e \<Rightarrow> ([Error (auth_error_prefix @ str_exn e)], Inr None)
           | Inr c \<Rightarrow> ([], Inr (Some c))))"
  by (simp add: app_authorize_gspread_def lift_def ret_def emit_def seq_def split: sum.splits)

lemma streamlit_authorize_file:
  "path_exists env SERVICE_ACCOUNT_FILE \<Longrightarrow>
   streamlit_authorize_gspread env =
     (case from_service_account_file env SERVICE_ACCOUNT_FILE of
        Inl e \<Rightarrow> ([], Inl e)
      | Inr cr \<Rightarrow>
          (case authorize env cr of
             Inl e \<Rightarrow> ([Error (auth_error_prefix @ str_exn e)], Inr None)
           | Inr c \<Rightarrow> ([], Inr (Some c))))"
  by (simp add: streamlit_authorize_gspread_def lift_def ret_def emit_def seq_def split: sum.splits)

lemma app_authorize_secret:
  "\<not> path_exists env SERVICE_ACCOUNT_FILE \<Longrightarrow> has_secrets env \<Longrightarrow>
   secrets env = Inr s \<Longrightarrow> map_of s ''gcp_service_account'' = Some d \<Longrightarrow>
   app_authorize_gspread env =
     (case from_service_account_info env d of
        Inl e \<Rightarrow> ([], Inl e)
      | Inr cr \<Rightarrow>
          (case authorize env cr of
             Inl e \<Rightarrow> ([Error (auth_error_prefix @ str_exn e)], Inr None)
           | Inr c \<Rightarrow> ([], Inr (Some c))))"
  by (frule map_of_SomeD)
     (force simp: app_authorize_gspread_def secret_in_def secret_at_def lift_def ret_def
        emit_def seq_def split: sum.splits)

lemma streamlit_authorize_secret:
  "\<not> path_exists env SERVICE_ACCOUNT_FILE \<Longrightarrow> has_secrets env \<Longrightarrow>
   secrets env = Inr s \<Longrightarrow> ''private_key'' \<in> set (map fst s) \<Longrightarrow>
   streamlit_authorize_gspread env =
     (case from_service_account_info env (SecretTable s) of
        Inl e \<Rightarrow> ([], Inl e)
      | Inr cr \<Rightarrow>
          (case authorize env cr of
             Inl e \<Rightarrow> ([Error (auth_error_prefix @ str_exn e)], Inr None)
           | Inr c \<Rightarrow> ([], Inr (Some c))))"
  by (simp add: streamlit_authorize_gspread_def secret_in_def secret_table_def lift_def ret_def
        emit_def seq_def split: sum.splits)

lemma app_authorize_none:
  "\<not> path_exists env SERVICE_ACCOUNT_FILE \<Longrightarrow>
   \<not> has_secrets env \<or>
     (\<exists>s. secrets env = Inr s \<and> ''gcp_service_account'' \<notin> set (map fst s)) \<Longrightarrow>
   app_authorize_gspread env =
     ([Error (quoted SERVICE_ACCOUNT_FILE @ app_no_credential_suffix)], Inr None)"
  by (auto simp: app_authorize_gspread_def secret_in_def lift_def ret_def emit_def seq_def)

lemma streamlit_authorize_none:
  "\<not> path_exists env SERVICE_ACCOUNT_FILE \<Longrightarrow>
   \<not> has_secrets env \<or> (\<exists>s. secrets env = Inr s \<and> ''private_key'' \<notin> set (map fst s)) \<Longrightarrow>
   streamlit_authorize_gspread env =
     ([Error streamlit_no_credential_error, Error streamlit_no_credential_hint], Inr None)"
  by (auto simp: streamlit_authorize_gspread_def secret_in_def lift_def ret_def emit_def seq_def)

lemma app_authorize_no_store:
  "\<not> path_exists env SERVICE_ACCOUNT_FILE \<Longrightarrow> has_secrets env \<Longrightarrow>
   secrets env = Inl e \<Longrightarrow> app_authorize_gspread env = ([], Inl e)"
  by (simp add: app_authorize_gspread_def secret_in_def lift_def)

lemma streamlit_authorize_no_store:
  "\<not> path_exists env SERVICE_ACCOUNT_FILE \<Longrightarrow> has_secrets env \<Longrightarrow>
   secrets env = Inl e \<Longrightarrow> streamlit_authorize_gspread env = ([], Inl e)"
  by (simp add: streamlit_authorize_gspread_def secret_in_def lift_def)

lemma app_main_unauthorized:
  "app_authorize_gspread env = (out, Inr None) \<Longrightarrow>
   app_main env choice =
     ([SetPageConfig, Title page_title, Write (target_sheet_prefix @ SHEET_URL)] @ out @
      [Warning app_auth_failed_warning], Inr ())"
  by (simp add: app_main_def emit_def seq_def)

lemma streamlit_main_unauthorized:
  "streamlit_authorize_gspread env = (out, Inr None) \<Longrightarrow>
   streamlit_main env choice =
     ([SetPageConfig, Title page_title, Write (target_sheet_prefix @ SHEET_URL)] @ out @
      [Warning streamlit_auth_failed_warning], Inr ())"
  by (simp add: streamlit_main_def emit_def seq_def)

lemma app_main_raised:
  "app_authorize_gspread env = (out, Inl e) \<Longrightarrow>
   app_main env choice =
     ([SetPageConfig, Title page_title, Write (target_sheet_prefix @ SHEET_URL)] @ out, Inl e)"
  by (simp add: app_main_def emit_def seq_def)

lemma streamlit_main_raised:
  "streamlit_authorize_gspread env = (out, Inl e) \<Longrightarrow>
   streamlit_main env choice =
     ([SetPageConfig, Title page_title, Write (target_sheet_prefix @ SHEET_URL)] @ out, Inl e)"
  by (simp add: streamlit_main_def emit_def seq_def)

text \<open>
  Both scripts look for the credential file first: when it exists, the result does not
  depend on the secret store at all, and is the client that the authorization of the
  file's credential returns; when that authorization raises, no client is returned and
  the report carries the text of the exception.
\<close>
lemma credential_file_first: "path_exists env SERVICE_ACCOUNT_FILE \<longrightarrow>
      app_authorize_gspread env =
        app_authorize_gspread
          (env\<lparr>has_secrets := hs, secrets := sec, from_service_account_info := info\<rparr>)
      \<and> streamlit_authorize_gspread env =
        streamlit_authorize_gspread
          (env\<lparr>has_secrets := hs, secrets := sec, from_service_account_info := info\<rparr>)
      \<and> (\<forall>cr. from_service_account_file env SERVICE_ACCOUNT_FILE = Inr cr \<longrightarrow>
            (\<forall>c. authorize env cr = Inr c \<longrightarrow>
               app_authorize_gspread env = ([], Inr (Some c)) \<and>
               streamlit_authorize_gspread env = ([], Inr (Some c)))
            \<and> (\<forall>e. authorize env cr = Inl e \<longrightarrow>
               app_authorize_gspread env
                 = ([Error (auth_error_prefix @ str_exn e)], Inr None) \<and>
               streamlit_authorize_gspread env
                 = ([Error (auth_error_prefix @ str_exn e)], Inr None)))"
  by (simp add: app_authorize_file streamlit_authorize_file split: sum.splits)

text \<open>
  Without the file the secret store is read, under the key \<^verbatim>\<open>gcp_service_account\<close> in
  app.py and at its top level in streamlit_app.py, with the same two outcomes of the
  authorization.
\<close>
lemma credential_from_secret_store: "\<not> path_exists env SERVICE_ACCOUNT_FILE \<longrightarrow> has_secrets env \<longrightarrow>
        (\<forall>s. secrets env = Inr s \<longrightarrow>
           (\<forall>d cr. map_of s ''gcp_service_account'' = Some d \<longrightarrow>
              from_service_account_info env d = Inr cr \<longrightarrow>
              (\<forall>c. authorize env cr = Inr c \<longrightarrow>
                    app_authorize_gspread env = ([], Inr (Some c)))
              \<and> (\<forall>e. authorize env cr = Inl e \<longrightarrow>
                    app_authorize_gspread env
                      = ([Error (auth_error_prefix @ str_exn e)], Inr None)))
           \<and> (\<forall>cr. ''private_key'' \<in> set (map fst s) \<longrightarrow>
              from_service_account_info env (SecretTable s) = Inr cr \<longrightarrow>
              (\<forall>c. authorize env cr = Inr c \<longrightarrow>
                    streamlit_authorize_gspread env = ([], Inr (Some c)))
              \<and> (\<forall>e. authorize env cr = Inl e \<longrightarrow>
                    streamlit_authorize_gspread env
                      = ([Error (auth_error_prefix @ str_exn e)], Inr None))))"
proof (intro impI allI conjI)
  fix s d cr c
  assume "\<not> path_exists env SERVICE_ACCOUNT_FILE" "has_secrets env" "secrets env = Inr s"
    "map_of s ''gcp_service_account'' = Some d" "from_service_account_info env d = Inr cr"
    "authorize env cr = Inr c"
  then show "app_authorize_gspread env = ([], Inr (Some c))"
    by (simp add: app_authorize_secret)
next
  fix s d cr e
  assume "\<not> path_exists env SERVICE_ACCOUNT_FILE" "has_secrets env" "secrets env = Inr s"
    "map_of s ''gcp_service_account'' = Some d" "from_service_account_info env d = Inr cr"
    "authorize env cr = Inl e"
  then show "app_authorize_gspread env = ([Error (auth_error_prefix @ str_exn e)], Inr None)"
    by (simp add: app_authorize_secret)
next
  fix s cr c
  assume "\<not> path_exists env SERVICE_ACCOUNT_FILE" "has_secrets env" "secrets env = Inr s"
    "''private_key'' \<in> set (map fst s)" "from_service_account_info env (SecretTable s) = Inr cr"
    "authorize env cr = Inr c"
  then show "streamlit_authorize_gspread env = ([], Inr (Some c))"
    by (simp add: streamlit_authorize_secret)
next
  fix s cr e
  assume "\<not> path_exists env SERVICE_ACCOUNT_FILE" "has_secrets env" "secrets env = Inr s"
    "''private_key'' \<in> set (map fst s)" "from_service_account_info env (SecretTable s) = Inr cr"
    "authorize env cr = Inl e"
  then show "streamlit_authorize_gspread env
      = ([Error (auth_error_prefix @ str_exn e)], Inr None)"
    by (simp add: streamlit_authorize_secret)
qed

text \<open>
  Without the file, when the secret store can be read and lacks the key, no client is
  returned, the configuration hint is reported, and the page holds only the title, the
  target line, the hint and the warning that authorization failed.
\<close>
lemma app_no_credential_hint: "\<not> path_exists env SERVICE_ACCOUNT_FILE \<longrightarrow>
        \<not> has_secrets env \<or>
          (\<exists>s. secrets env = Inr s \<and> ''gcp_service_account'' \<notin> set (map fst s)) \<longrightarrow>
        app_authorize_gspread env
          = ([Error (quoted SERVICE_ACCOUNT_FILE @ app_no_credential_suffix)], Inr None)
        \<and> app_main env choice
          = ([SetPageConfig, Title page_title, Write (target_sheet_prefix @ SHEET_URL),
              Error (quoted SERVICE_ACCOUNT_FILE @ app_no_credential_suffix),
              Warning app_auth_failed_warning], Inr ())"
proof (intro impI)
  assume a: "\<not> path_exists env SERVICE_ACCOUNT_FILE"
    "\<not> has_secrets env \<or>
      (\<exists>s. secrets env = Inr s \<and> ''gcp_service_account'' \<notin> set (map fst s))"
  show "app_authorize_gspread env
          = ([Error (quoted SERVICE_ACCOUNT_FILE @ app_no_credential_suffix)], Inr None)
        \<and> app_main env choice
          = ([SetPageConfig, Title page_title, Write (target_sheet_prefix @ SHEET_URL),
              Error (quoted SERVICE_ACCOUNT_FILE @ app_no_credential_suffix),
              Warning app_auth_failed_warning], Inr ())"
    using app_authorize_none [OF a] app_main_unauthorized [OF app_authorize_none [OF a]]
    by simp
qed

lemma streamlit_no_credential_hint: "\<not> path_exists env SERVICE_ACCOUNT_FILE \<longrightarrow>
        \<not> has_secrets env \<or>
          (\<exists>s. secrets env = Inr s \<and> ''private_key'' \<notin> set (map fst s)) \<longrightarrow>
        streamlit_authorize_gspread env
          = ([Error streamlit_no_credential_error, Error streamlit_no_credential_hint], Inr None)
        \<and> streamlit_main env choice
          = ([SetPageConfig, Title page_title, Write (target_sheet_prefix @ SHEET_URL),
              Error streamlit_no_credential_error, Error streamlit_no_credential_hint,
              Warning streamlit_auth_failed_warning], Inr ())"
proof (intro impI)
  assume a: "\<not> path_exists env SERVICE_ACCOUNT_FILE"
    "\<not> has_secrets env \<or>
      (\<exists>s. secrets env = Inr s \<and> ''private_key'' \<notin> set (map fst s))"
  show "streamlit_authorize_gspread env
          = ([Error streamlit_no_credential_error, Error streamlit_no_credential_hint], Inr None)
        \<and> streamlit_main env choice
          = ([SetPageConfig, Title page_title, Write (target_sheet_prefix @ SHEET_URL),
              Error streamlit_no_credential_error, Error streamlit_no_credential_hint,
              Warning streamlit_auth_failed_warning], Inr ())"
    using streamlit_authorize_none [OF a] streamlit_main_unauthorized [OF streamlit_authorize_none [OF a]]
    by simp
qed

text \<open>
  Without the file, when the read of the secret store raises, the exception leaves both
  scripts: the page ends after the target line.
\<close>
lemma secret_store_read_raises: "\<not> path_exists env SERVICE_ACCOUNT_FILE \<longrightarrow> has_secrets env \<longrightarrow>
        (\<forall>e. secrets env = Inl e \<longrightarrow>
           app_main env choice
             = ([SetPageConfig, Title page_title, Write (target_sheet_prefix @ SHEET_URL)],
                Inl e)
           \<and> streamlit_main env choice
             = ([SetPageConfig, Title page_title, Write (target_sheet_prefix @ SHEET_URL)],
                Inl e))"
proof (intro impI allI)
  fix e
  assume a: "\<not> path_exists env SERVICE_ACCOUNT_FILE" "has_secrets env" "secrets env = Inl e"
  show "app_main env choice
             = ([SetPageConfig, Title page_title, Write (target_sheet_prefix @ SHEET_URL)],
                Inl e)
           \<and> streamlit_main env choice
             = ([SetPageConfig, Title page_title, Write (target_sheet_prefix @ SHEET_URL)],
                Inl e)"
    using app_main_raised [OF app_authorize_no_store [OF a]]
      streamlit_main_raised [OF streamlit_authorize_no_store [OF a]]
    by simp
qed

text \<open>
  C8, where the scripts break it. With neither the credential file nor a secrets file,
  the membership test on \<^verbatim>\<open>st.secrets\<close>, which stands outside any \<^verbatim>\<open>try\<close>, raises:
  both scripts end after the title and the target line with that exception, and neither
  the configuration hint nor the warning that authorization failed is rendered. The hint
  is reached only where a secrets file exists and lacks the key. The other paths do what
  is claimed: a refused authorization is reported with the text of its cause, and a
  secret store that holds the service account leads to the rendered table.
\<close>
theorem no_secrets_file_raises:
  "app_main unconfigured_env 0
     = ([SetPageConfig, Title page_title, Write (target_sheet_prefix @ SHEET_URL)],
        Inl no_secrets_file)
   \<and> streamlit_main unconfigured_env 0
     = ([SetPageConfig, Title page_title, Write (target_sheet_prefix @ SHEET_URL)],
        Inl no_secrets_file)
   \<and> app_main bare_env 0
     = ([SetPageConfig, Title page_title, Write (target_sheet_prefix @ SHEET_URL),
         Error (quoted SERVICE_ACCOUNT_FILE @ app_no_credential_suffix),
         Warning app_auth_failed_warning], Inr ())
   \<and> streamlit_main bare_env 0
     = ([SetPageConfig, Title page_title, Write (target_sheet_prefix @ SHEET_URL),
         Error streamlit_no_credential_error, Error streamlit_no_credential_hint,
         Warning streamlit_auth_failed_warning], Inr ())
   \<and> app_main refused_env 0
     = ([SetPageConfig, Title page_title, Write (target_sheet_prefix @ SHEET_URL),
         Error (auth_error_prefix @ ''invalid_grant''),
         Warning app_auth_failed_warning], Inr ())
   \<and> streamlit_main refused_env 0
     = ([SetPageConfig, Title page_title, Write (target_sheet_prefix @ SHEET_URL),
         Error (auth_error_prefix @ ''invalid_grant''),
         Warning streamlit_auth_failed_warning], Inr ())
   \<and> app_main (secret_env (serve scenario_A)) 0 = app_main (local_env (serve scenario_A)) 0
   \<and> streamlit_main (secret_env (serve scenario_A)) 0
     = streamlit_main (local_env (serve scenario_A)) 0
   \<and> last (fst (app_main (secret_env (serve scenario_A)) 0))
     = Metric metric_label (''11.8'' @ hours_suffix)"
  by code_simp

subsection \<open>The composed view\<close>

lemma filter_available_columns [simp]:
  "filter (\<lambda>c. c \<notin> set (columns df)) (available_columns df) = []"
  by (simp add: available_columns_def)

lemma getitems_available:
  "getitems df (available_columns df) =
     Inr \<lparr>columns = available_columns df,
          rows = map (\<lambda>r. map (\<lambda>c. (c, cell_at r c)) (available_columns df)) (rows df)\<rparr>"
  by (simp add: getitems_def)

lemma getmask_map: "getmask df (map p (rows df)) = df\<lparr>rows := filter p (rows df)\<rparr>"
proof -
  have "map fst (filter snd (zip rs (map p rs))) = filter p rs" for rs :: "(string \<times> cell) list list"
    by (induction rs) simp_all
  then show ?thesis by (simp add: getmask_def)
qed

lemma df_display_all:
  "df_display df (Some (Str all_clusters_label)) =
     Inr \<lparr>columns = available_columns df,
          rows = map (\<lambda>r. map (\<lambda>c. (c, cell_at r c)) (available_columns df)) (rows df)\<rparr>"
  by (simp add: df_display_def getitems_available)

lemma df_display_selected:
  assumes "sel \<noteq> Some (Str all_clusters_label)" "col_cluster \<in> set (columns df)"
  shows "df_display df sel =
     Inr \<lparr>columns = available_columns df,
          rows = map (\<lambda>r. map (\<lambda>c. (c, cell_at r c)) (available_columns df))
                   (filter (\<lambda>r. case sel of None \<Rightarrow> False
                                  | Some x \<Rightarrow> py_eq (cell_at r col_cluster) x) (rows df))\<rparr>"
proof -
  have "eq_series (map (\<lambda>r. cell_at r col_cluster) (rows df)) sel =
     map (\<lambda>r. case sel of None \<Rightarrow> False | Some x \<Rightarrow> py_eq (cell_at r col_cluster) x) (rows df)"
    by (simp add: eq_series_def)
  then show ?thesis
    using assms
    by (simp add: df_display_def getitem_def getmask_map getitems_def available_columns_def)
qed

lemma missing_all: "available_columns df = [] \<Longrightarrow> missing_columns df = display_columns"
  by (simp add: available_columns_def missing_columns_def filter_empty_conv)

lemma app_view_cases:
  "app_view df choice =
     (let w = (if missing_columns df \<noteq> [] then
                 [Warning (missing_columns_prefix @ join '', '' (missing_columns df))]
               else [])
      in if available_columns df = [] then (w @ [Error app_no_columns_error], Inr ())
         else
           (case getitem df col_cluster of
              Inl e \<Rightarrow> (w @ [Header raw_data_header, SidebarHeader filter_header], Inl e)
            | Inr clusters \<Rightarrow>
                (case sorted_py (unique clusters) of
                   Inl e \<Rightarrow> (w @ [Header raw_data_header, SidebarHeader filter_header], Inl e)
                 | Inr sorted_clusters \<Rightarrow>
                     (let opts = Str all_clusters_label # sorted_clusters;
                          sel = Some (opts ! (if choice < length opts then choice else 0))
                      in case df_display df sel of
                           Inl e \<Rightarrow>
                             (w @ [Header raw_data_header, SidebarHeader filter_header,
                                   Selectbox cluster_select_label opts], Inl e)
                         | Inr shown \<Rightarrow>
                             (case avg_hours_text shown of
                                Inl e \<Rightarrow>
                                  (w @ [Header raw_data_header, SidebarHeader filter_header,
                                        Selectbox cluster_select_label opts,
                                        ShowDataframe shown, Header summary_header], Inl e)
                              | Inr t \<Rightarrow>
                                  (w @ [Header raw_data_header, SidebarHeader filter_header,
                                        Selectbox cluster_select_label opts,
                                        ShowDataframe shown, Header summary_header,
                                        Metric metric_label t], Inr ()))))))"
  by (simp add: app_view_def selectbox_def lift_def ret_def emit_def seq_def Let_def
      split: sum.splits)

lemma streamlit_view_cases:
  "streamlit_view df choice =
     (let w = (if missing_columns df \<noteq> [] then
                 [Warning (missing_columns_prefix @ join '', '' (missing_columns df))]
               else [])
      in if available_columns df = [] then (w @ [Error streamlit_no_columns_error], Inr ())
         else
           (case getitem df col_cluster of
              Inl e \<Rightarrow> (w @ [Header raw_data_header, SidebarHeader filter_header], Inl e)
            | Inr clusters \<Rightarrow>
                (case sorted_py (unique clusters) of
                   Inl e \<Rightarrow> (w @ [Header raw_data_header, SidebarHeader filter_header], Inl e)
                 | Inr sorted_clusters \<Rightarrow>
                     (let opts = Str all_clusters_label # sorted_clusters;
                          sel = Some (opts ! (if choice < length opts then choice else 0))
                      in case df_display df sel of
                           Inl e \<Rightarrow>
                             (w @ [Header raw_data_header, SidebarHeader filter_header,
                                   Selectbox cluster_select_label opts], Inl e)
                         | Inr shown \<Rightarrow>
                             (case avg_hours_text shown of
                                Inl e \<Rightarrow>
                                  (w @ [Header raw_data_header, SidebarHeader filter_header,
                                        Selectbox cluster_select_label opts,
                                        ShowDataframe shown, Header summary_header], Inl e)
                              | Inr t \<Rightarrow>
                                  (w @ [Header raw_data_header, SidebarHeader filter_header,
                                        Selectbox cluster_select_label opts,
                                        ShowDataframe shown, Header summary_header,
                                        Metric metric_label t], Inr ()))))))"
  by (simp add: streamlit_view_def selectbox_def lift_def ret_def emit_def seq_def Let_def
      split: sum.splits)

lemma app_main_loaded:
  "app_authorize_gspread env = (out, Inr (Some c)) \<Longrightarrow>
   app_load_simple_data (Some c) SHEET_URL default_sheet_name = (out', Inr df) \<Longrightarrow>
   app_main env choice =
     ([SetPageConfig, Title page_title, Write (target_sheet_prefix @ SHEET_URL)] @ out @ out' @
      fst (app_compose df choice), snd (app_compose df choice))"
  by (simp add: app_main_def emit_def seq_def)

lemma streamlit_main_loaded:
  "streamlit_authorize_gspread env = (out, Inr (Some c)) \<Longrightarrow>
   streamlit_load_simple_data (Some c) SHEET_URL default_sheet_name = (out', Inr df) \<Longrightarrow>
   streamlit_main env choice =
     ([SetPageConfig, Title page_title, Write (target_sheet_prefix @ SHEET_URL)] @ out @ out' @
      fst (streamlit_compose df choice), snd (streamlit_compose df choice))"
  by (simp add: streamlit_main_def emit_def seq_def)

lemma columns_df_display:
  "df_display df sel = Inr shown \<Longrightarrow> columns shown = available_columns df"
  by (auto simp: df_display_def getitems_available getitem_def getitems_def getmask_def
      split: if_splits)

text \<open>
  C5. The wanted columns are the five fixed names in their fixed order. The available
  columns are exactly the wanted columns that are columns of the table, and the missing
  columns exactly the wanted columns that are not; both keep the order of the wanted list.
  Whatever is selected, the columns of the displayed table are the available columns. For
  scenario B, which lacks the department, the missing columns are the department alone
  and the other four are available.
\<close>
theorem available_columns_exact:
  "display_columns = [col_cluster, col_empno, col_name, col_dept, col_hours]
   \<and> set (available_columns df) = set display_columns \<inter> set (columns df)
   \<and> subseq (available_columns df) display_columns
   \<and> set (missing_columns df) = set display_columns - set (columns df)
   \<and> subseq (missing_columns df) display_columns
   \<and> (\<forall>sel shown. df_display df sel = Inr shown \<longrightarrow> columns shown = available_columns df)
   \<and> missing_columns (DataFrame scenario_B) = [col_dept]
   \<and> available_columns (DataFrame scenario_B) = [col_cluster, col_empno, col_name, col_hours]"
proof -
  have b: "missing_columns (DataFrame scenario_B) = [col_dept]"
    "available_columns (DataFrame scenario_B) = [col_cluster, col_empno, col_name, col_hours]"
    by code_simp+
  have "set (available_columns df) = set display_columns \<inter> set (columns df)"
    "set (missing_columns df) = set display_columns - set (columns df)"
    by (auto simp: available_columns_def missing_columns_def)
  moreover have "subseq (available_columns df) display_columns"
    "subseq (missing_columns df) display_columns"
    by (simp_all add: available_columns_def missing_columns_def)
  ultimately show ?thesis
    using b columns_df_display by (simp add: display_columns_def)
qed

text \<open>The theorem at scenario B with the cluster \<^verbatim>\<open>A\<close> selected.\<close>
theorem available_columns_exact_witness:
  "\<exists>shown. df_display (DataFrame scenario_B) (Some (Str ''A'')) = Inr shown \<and>
     columns shown = [col_cluster, col_empno, col_name, col_hours] \<and> length (rows shown) = 1"
proof -
  have "case df_display (DataFrame scenario_B) (Some (Str ''A'')) of
          Inl e \<Rightarrow> False | Inr shown \<Rightarrow> length (rows shown) = 1"
    by code_simp
  then obtain shown where "df_display (DataFrame scenario_B) (Some (Str ''A'')) = Inr shown"
    and "length (rows shown) = 1"
    by (auto split: sum.splits)
  then show ?thesis
    using available_columns_exact [of "DataFrame scenario_B"] by auto
qed

text \<open>
  C7. For a table that is not empty and has none of the wanted columns, both scripts
  render the warning that lists all five wanted columns and then the error that no
  requested column exists, and end there: whenever such a table is loaded, the page holds
  nothing after that error, so no select box, no table and no metric.
\<close>
theorem no_wanted_column_stops:
  "\<not> df_empty df \<longrightarrow> available_columns df = [] \<longrightarrow>
     app_compose df choice
       = ([Warning (missing_columns_prefix @ join '', '' display_columns),
           Error app_no_columns_error], Inr ())
     \<and> streamlit_compose df choice
       = ([Warning (missing_columns_prefix @ join '', '' display_columns),
           Error streamlit_no_columns_error], Inr ())
     \<and> (\<forall>env c out out'.
           app_authorize_gspread env = (out, Inr (Some c)) \<longrightarrow>
           app_load_simple_data (Some c) SHEET_URL default_sheet_name = (out', Inr df) \<longrightarrow>
           app_main env choice
             = ([SetPageConfig, Title page_title, Write (target_sheet_prefix @ SHEET_URL)]
                @ out @ out'
                @ [Warning (missing_columns_prefix @ join '', '' display_columns),
                   Error app_no_columns_error], Inr ()))
     \<and> (\<forall>env c out out'.
           streamlit_authorize_gspread env = (out, Inr (Some c)) \<longrightarrow>
           streamlit_load_simple_data (Some c) SHEET_URL default_sheet_name = (out', Inr df) \<longrightarrow>
           streamlit_main env choice
             = ([SetPageConfig, Title page_title, Write (target_sheet_prefix @ SHEET_URL)]
                @ out @ out'
                @ [Warning (missing_columns_prefix @ join '', '' display_columns),
                   Error streamlit_no_columns_error], Inr ()))"
proof (intro impI)
  assume ne: "\<not> df_empty df" and none: "available_columns df = []"
  have wanted: "display_columns \<noteq> []" by (simp add: display_columns_def)
  have app: "app_compose df choice
       = ([Warning (missing_columns_prefix @ join '', '' display_columns),
           Error app_no_columns_error], Inr ())"
    using ne none wanted by (simp add: app_compose_def app_view_cases missing_all)
  have streamlit: "streamlit_compose df choice
       = ([Warning (missing_columns_prefix @ join '', '' display_columns),
           Error streamlit_no_columns_error], Inr ())"
    using ne none wanted by (simp add: streamlit_compose_def streamlit_view_cases missing_all)
  show "app_compose df choice
       = ([Warning (missing_columns_prefix @ join '', '' display_columns),
           Error app_no_columns_error], Inr ())
     \<and> streamlit_compose df choice
       = ([Warning (missing_columns_prefix @ join '', '' display_columns),
           Error streamlit_no_columns_error], Inr ())
     \<and> (\<forall>env c out out'.
           app_authorize_gspread env = (out, Inr (Some c)) \<longrightarrow>
           app_load_simple_data (Some c) SHEET_URL default_sheet_name = (out', Inr df) \<longrightarrow>
           app_main env choice
             = ([SetPageConfig, Title page_title, Write (target_sheet_prefix @ SHEET_URL)]
                @ out @ out'
                @ [Warning (missing_columns_prefix @ join '', '' display_columns),
                   Error app_no_columns_error], Inr ()))
     \<and> (\<forall>env c out out'.
           streamlit_authorize_gspread env = (out, Inr (Some c)) \<longrightarrow>
           streamlit_load_simple_data (Some c) SHEET_URL default_sheet_name = (out', Inr df) \<longrightarrow>
           streamlit_main env choice
             = ([SetPageConfig, Title page_title, Write (target_sheet_prefix @ SHEET_URL)]
                @ out @ out'
                @ [Warning (missing_columns_prefix @ join '', '' display_columns),
                   Error streamlit_no_columns_error], Inr ()))"
    using app streamlit by (simp add: app_main_loaded streamlit_main_loaded)
qed

text \<open>The theorem at one row with two foreign columns, through the whole script.\<close>
theorem no_wanted_column_stops_witness:
  "\<not> df_empty (DataFrame foreign_records) \<and> available_columns (DataFrame foreign_records) = []
   \<and> app_main (local_env (serve foreign_records)) 0
       = ([SetPageConfig, Title page_title, Write (target_sheet_prefix @ SHEET_URL),
           Warning (missing_columns_prefix @ join '', '' display_columns),
           Error app_no_columns_error], Inr ())
   \<and> streamlit_main (local_env (serve foreign_records)) 0
       = ([SetPageConfig, Title page_title, Write (target_sheet_prefix @ SHEET_URL),
           Warning (missing_columns_prefix @ join '', '' display_columns),
           Error streamlit_no_columns_error], Inr ())"
proof -
  have ne: "\<not> df_empty (DataFrame foreign_records)"
    and none: "available_columns (DataFrame foreign_records) = []"
    by code_simp+
  have auth: "app_authorize_gspread (local_env (serve foreign_records))
      = ([], Inr (Some (serve foreign_records)))"
    "streamlit_authorize_gspread (local_env (serve foreign_records))
      = ([], Inr (Some (serve foreign_records)))"
    by (simp_all add: app_authorize_file streamlit_authorize_file local_env_def)
  have hours: "col_hours \<notin> set (columns (DataFrame foreign_records))" by code_simp
  have load: "app_load_simple_data (Some (serve foreign_records)) SHEET_URL default_sheet_name
      = ([], Inr (DataFrame foreign_records))"
    "streamlit_load_simple_data (Some (serve foreign_records)) SHEET_URL default_sheet_name
      = ([], Inr (DataFrame foreign_records))"
    using hours by (simp_all add: streamlit_load_eq_app app_load_cases serve_def)
  show ?thesis
    using no_wanted_column_stops [of "DataFrame foreign_records" 0] ne none auth load
    by simp
qed

subsection \<open>The filter\<close>

lemma py_eq_Str [simp]: "py_eq v (Str s) = (v = Str s)"
  by (cases v) simp_all

lemma shown_is_df_display:
  assumes "Selectbox cluster_select_label opts \<in> set (fst (app_view df choice))"
    and "ShowDataframe shown \<in> set (fst (app_view df choice))"
  shows "df_display df (Some (opts ! (if choice < length opts then choice else 0))) = Inr shown"
  using assms
  by (auto simp: app_view_cases Let_def split: if_splits sum.splits)

lemma streamlit_shown_is_df_display:
  assumes "Selectbox cluster_select_label opts \<in> set (fst (streamlit_view df choice))"
    and "ShowDataframe shown \<in> set (fst (streamlit_view df choice))"
  shows "df_display df (Some (opts ! (if choice < length opts then choice else 0))) = Inr shown"
  using assms
  by (auto simp: streamlit_view_cases Let_def split: if_splits sum.splits)

lemma py_eq_iff: "py_eq v x = (v = x \<and> v \<noteq> NaN)"
  by (cases v; cases x) simp_all

text \<open>
  C2. With the first option, the word for all, selected, no row is dropped: the displayed
  table is the whole table projected onto the available columns, so it has as many rows
  as the table. With any other selection, a string, a number or NaN, the displayed table
  holds exactly the rows whose cluster cell is equal to the selection as Python's
  \<^verbatim>\<open>==\<close> has it: the same cell and not NaN. For a string that is the rows whose cluster
  is that very string, compared byte for byte. The rows are again projected onto the
  available columns. In both scripts the table on the page is this displayed table for
  the option of the select box that the operator picked.
\<close>
theorem filter_selection:
  "df_display df (Some (Str all_clusters_label))
     = Inr \<lparr>columns = available_columns df,
            rows = map (\<lambda>r. map (\<lambda>c. (c, cell_at r c)) (available_columns df)) (rows df)\<rparr>
   \<and> (\<forall>shown. df_display df (Some (Str all_clusters_label)) = Inr shown \<longrightarrow>
         length (rows shown) = length (rows df))
   \<and> (\<forall>sel. sel \<noteq> Some (Str all_clusters_label) \<longrightarrow> col_cluster \<in> set (columns df) \<longrightarrow>
         df_display df sel
           = Inr \<lparr>columns = available_columns df,
                  rows = map (\<lambda>r. map (\<lambda>c. (c, cell_at r c)) (available_columns df))
                           (filter (\<lambda>r. case sel of None \<Rightarrow> False
                                          | Some x \<Rightarrow> py_eq (cell_at r col_cluster) x)
                              (rows df))\<rparr>)
   \<and> (\<forall>v x. py_eq v x = (v = x \<and> v \<noteq> NaN))
   \<and> (\<forall>s. s \<noteq> all_clusters_label \<longrightarrow> col_cluster \<in> set (columns df) \<longrightarrow>
         df_display df (Some (Str s))
           = Inr \<lparr>columns = available_columns df,
                  rows = map (\<lambda>r. map (\<lambda>c. (c, cell_at r c)) (available_columns df))
                           (filter (\<lambda>r. cell_at r col_cluster = Str s) (rows df))\<rparr>)
   \<and> (\<forall>opts shown.
         Selectbox cluster_select_label opts \<in> set (fst (app_view df choice)) \<longrightarrow>
         ShowDataframe shown \<in> set (fst (app_view df choice)) \<longrightarrow>
         df_display df (Some (opts ! (if choice < length opts then choice else 0))) = Inr shown)
   \<and> (\<forall>opts shown.
         Selectbox cluster_select_label opts \<in> set (fst (streamlit_view df choice)) \<longrightarrow>
         ShowDataframe shown \<in> set (fst (streamlit_view df choice)) \<longrightarrow>
         df_display df (Some (opts ! (if choice < length opts then choice else 0))) = Inr shown)"
proof -
  have concrete: "df_display df (Some (Str s))
           = Inr \<lparr>columns = available_columns df,
                  rows = map (\<lambda>r. map (\<lambda>c. (c, cell_at r c)) (available_columns df))
                           (filter (\<lambda>r. cell_at r col_cluster = Str s) (rows df))\<rparr>"
    if "s \<noteq> all_clusters_label" "col_cluster \<in> set (columns df)" for s
    using that df_display_selected [of "Some (Str s)" df] by simp
  have every: "\<forall>sel. sel \<noteq> Some (Str all_clusters_label) \<longrightarrow> col_cluster \<in> set (columns df) \<longrightarrow>
         df_display df sel
           = Inr \<lparr>columns = available_columns df,
                  rows = map (\<lambda>r. map (\<lambda>c. (c, cell_at r c)) (available_columns df))
                           (filter (\<lambda>r. case sel of None \<Rightarrow> False
                                          | Some x \<Rightarrow> py_eq (cell_at r col_cluster) x)
                              (rows df))\<rparr>"
    by (intro allI impI) (rule df_display_selected)
  have eq: "\<forall>v x. py_eq v x = (v = x \<and> v \<noteq> NaN)"
    by (intro allI) (rule py_eq_iff)
  have shown: "(\<forall>opts shown.
         Selectbox cluster_select_label opts \<in> set (fst (app_view df choice)) \<longrightarrow>
         ShowDataframe shown \<in> set (fst (app_view df choice)) \<longrightarrow>
         df_display df (Some (opts ! (if choice < length opts then choice else 0))) = Inr shown)"
    "(\<forall>opts shown.
         Selectbox cluster_select_label opts \<in> set (fst (streamlit_view df choice)) \<longrightarrow>
         ShowDataframe shown \<in> set (fst (streamlit_view df choice)) \<longrightarrow>
         df_display df (Some (opts ! (if choice < length opts then choice else 0))) = Inr shown)"
    using shown_is_df_display streamlit_shown_is_df_display by blast+
  have whole: "df_display df (Some (Str all_clusters_label))
     = Inr \<lparr>columns = available_columns df,
            rows = map (\<lambda>r. map (\<lambda>c. (c, cell_at r c)) (available_columns df)) (rows df)\<rparr>"
    "\<forall>shown. df_display df (Some (Str all_clusters_label)) = Inr shown \<longrightarrow>
         length (rows shown) = length (rows df)"
    by (auto simp: df_display_all)
  have strings: "\<forall>s. s \<noteq> all_clusters_label \<longrightarrow> col_cluster \<in> set (columns df) \<longrightarrow>
         df_display df (Some (Str s))
           = Inr \<lparr>columns = available_columns df,
                  rows = map (\<lambda>r. map (\<lambda>c. (c, cell_at r c)) (available_columns df))
                           (filter (\<lambda>r. cell_at r col_cluster = Str s) (rows df))\<rparr>"
    using concrete by blast
  show ?thesis
    by (intro conjI) (rule whole every eq strings shown)+
qed

text \<open>The theorem at scenario A: the cluster \<^verbatim>\<open>A\<close> keeps the first and the third
  row, and the lower-case \<^verbatim>\<open>a\<close> keeps none. At three rows with numeric clusters, the
  number 1 keeps the first and the third row, and NaN keeps none.\<close>
theorem filter_selection_witness:
  "(\<exists>shown. df_display (DataFrame scenario_A) (Some (Str ''A'')) = Inr shown \<and>
      map (\<lambda>r. cell_at r col_empno) (rows shown) = [Num 1, Num 3])
   \<and> (\<exists>shown. df_display (DataFrame scenario_A) (Some (Str ''a'')) = Inr shown \<and>
      rows shown = [])
   \<and> (\<exists>shown. df_display (DataFrame scenario_A) (Some (Str all_clusters_label)) = Inr shown \<and>
      length (rows shown) = 3)
   \<and> (\<exists>shown. df_display (DataFrame numeric_cluster_records) (Some (Num 1)) = Inr shown \<and>
      map (\<lambda>r. cell_at r col_empno) (rows shown) = [Num 11, Num 13])
   \<and> (\<exists>shown. df_display (DataFrame numeric_cluster_records) (Some NaN) = Inr shown \<and>
      rows shown = [])"
proof -
  have neq: "''A'' \<noteq> all_clusters_label" "''a'' \<noteq> all_clusters_label"
    by (simp_all add: all_clusters_label_def)
  have col: "col_cluster \<in> set (columns (DataFrame scenario_A))"
    and col': "col_cluster \<in> set (columns (DataFrame numeric_cluster_records))"
    by code_simp+
  have upper: "map (\<lambda>r. cell_at r col_empno)
      (map (\<lambda>r. map (\<lambda>c. (c, cell_at r c)) (available_columns (DataFrame scenario_A)))
         (filter (\<lambda>r. cell_at r col_cluster = Str ''A'') (rows (DataFrame scenario_A))))
      = [Num 1, Num 3]"
    by code_simp
  have lower: "filter (\<lambda>r. cell_at r col_cluster = Str ''a'') (rows (DataFrame scenario_A)) = []"
    by code_simp
  have len: "length (rows (DataFrame scenario_A)) = 3" by code_simp
  have one: "map (\<lambda>r. cell_at r col_empno)
      (map (\<lambda>r. map (\<lambda>c. (c, cell_at r c))
                 (available_columns (DataFrame numeric_cluster_records)))
         (filter (\<lambda>r. py_eq (cell_at r col_cluster) (Num 1))
            (rows (DataFrame numeric_cluster_records))))
      = [Num 11, Num 13]"
    by code_simp
  have nan: "filter (\<lambda>r. py_eq (cell_at r col_cluster) NaN)
      (rows (DataFrame numeric_cluster_records)) = []"
    by code_simp
  note whole = filter_selection [of "DataFrame scenario_A" 0, THEN conjunct1]
  note strings = filter_selection [of "DataFrame scenario_A" 0,
      THEN conjunct2, THEN conjunct2, THEN conjunct2, THEN conjunct2, THEN conjunct1,
      rule_format, OF _ col]
  note every = filter_selection [of "DataFrame numeric_cluster_records" 0,
      THEN conjunct2, THEN conjunct2, THEN conjunct1, rule_format, OF _ col']
  have 1: "\<exists>shown. df_display (DataFrame scenario_A) (Some (Str ''A'')) = Inr shown \<and>
      map (\<lambda>r. cell_at r col_empno) (rows shown) = [Num 1, Num 3]"
    using strings [OF neq(1)] upper by simp
  have 2: "\<exists>shown. df_display (DataFrame scenario_A) (Some (Str ''a'')) = Inr shown \<and>
      rows shown = []"
    using strings [OF neq(2)] lower by simp
  have 3: "\<exists>shown. df_display (DataFrame scenario_A) (Some (Str all_clusters_label)) = Inr shown \<and>
      length (rows shown) = 3"
    using whole len by simp
  have 4: "\<exists>shown. df_display (DataFrame numeric_cluster_records) (Some (Num 1)) = Inr shown \<and>
      map (\<lambda>r. cell_at r col_empno) (rows shown) = [Num 11, Num 13]"
    using every [of "Some (Num 1)"] one by simp
  have 5: "\<exists>shown. df_display (DataFrame numeric_cluster_records) (Some NaN) = Inr shown \<and>
      rows shown = []"
    using every [of "Some NaN"] nan by simp
  show ?thesis
    by (intro conjI) (rule 1 2 3 4 5)+
qed

subsection \<open>The summary\<close>

lemma avg_hours_text_no_rows:
  "rows shown = [] \<Longrightarrow> col_hours \<in> set (columns shown) \<Longrightarrow>
   avg_hours_text shown = Inr (''nan'' @ hours_suffix)"
  by (simp add: avg_hours_text_def getitem_def mean_def)

lemma col_hours_wanted: "col_hours \<in> set display_columns"
  by (simp add: display_columns_def)

lemma app_view_no_rows:
  assumes "ShowDataframe shown \<in> set (fst (app_view df choice))" "rows shown = []"
    "col_hours \<in> set (columns df)"
  shows "snd (app_view df choice) = Inr () \<and>
    last (fst (app_view df choice)) = Metric metric_label (''nan'' @ hours_suffix)"
proof -
  have av: "col_hours \<in> set (available_columns df)"
    using assms(3) col_hours_wanted by (simp add: available_columns_def)
  have "avg_hours_text s = Inr (''nan'' @ hours_suffix)"
    if "df_display df sel = Inr s" "rows s = []" for sel s
    using that av columns_df_display [OF that(1)] by (simp add: avg_hours_text_no_rows)
  then show ?thesis
    using assms(1,2) av
    by (auto simp: app_view_cases Let_def split: if_splits sum.splits)
qed

lemma streamlit_view_no_rows:
  assumes "ShowDataframe shown \<in> set (fst (streamlit_view df choice))" "rows shown = []"
    "col_hours \<in> set (columns df)"
  shows "snd (streamlit_view df choice) = Inr () \<and>
    last (fst (streamlit_view df choice)) = Metric metric_label (''nan'' @ hours_suffix)"
proof -
  have av: "col_hours \<in> set (available_columns df)"
    using assms(3) col_hours_wanted by (simp add: available_columns_def)
  have "avg_hours_text s = Inr (''nan'' @ hours_suffix)"
    if "df_display df sel = Inr s" "rows s = []" for sel s
    using that av columns_df_display [OF that(1)] by (simp add: avg_hours_text_no_rows)
  then show ?thesis
    using assms(1,2) av
    by (auto simp: streamlit_view_cases Let_def split: if_splits sum.splits)
qed

text \<open>
  C3, as the scripts behave. One row whose cluster is NaN: the select box offers the word
  for all and NaN; with NaN picked no row is equal to the selection, the displayed table
  has no row, and the metric of both scripts reads \<^verbatim>\<open>nan\<close> with the unit. The claim
  that an empty row set shows zero or a no-data indicator, and never a NaN token, fails
  here.
\<close>
theorem empty_selection_shows_nan:
  "app_main (local_env (serve nan_cluster_records)) 1
     = ([SetPageConfig, Title page_title, Write (target_sheet_prefix @ SHEET_URL),
         Warning (missing_columns_prefix @ join '', '' [col_empno, col_name, col_dept]),
         Header raw_data_header, SidebarHeader filter_header,
         Selectbox cluster_select_label [Str all_clusters_label, NaN],
         ShowDataframe \<lparr>columns = [col_cluster, col_hours], rows = []\<rparr>,
         Header summary_header,
         Metric metric_label (''nan'' @ hours_suffix)], Inr ())
   \<and> streamlit_main (local_env (serve nan_cluster_records)) 1
     = ([SetPageConfig, Title page_title, Write (target_sheet_prefix @ SHEET_URL),
         Warning (missing_columns_prefix @ join '', '' [col_empno, col_name, col_dept]),
         Header raw_data_header, SidebarHeader filter_header,
         Selectbox cluster_select_label [Str all_clusters_label, NaN],
         ShowDataframe \<lparr>columns = [col_cluster, col_hours], rows = []\<rparr>,
         Header summary_header,
         Metric metric_label (''nan'' @ hours_suffix)], Inr ())"
  by code_simp

text \<open>
  C3, amended. When the displayed table has no row and the accumulated-time column is a
  column of the table, neither script raises: the mean is NaN and the metric, the last
  element of the page, is the text \<^verbatim>\<open>nan\<close> followed by the unit. Nothing is put in
  its place.
\<close>
theorem empty_rows_mean_is_nan:
  "(rows shown = [] \<longrightarrow> col_hours \<in> set (columns shown) \<longrightarrow>
      avg_hours_text shown = Inr (''nan'' @ hours_suffix))
   \<and> (ShowDataframe shown \<in> set (fst (app_view df choice)) \<longrightarrow> rows shown = [] \<longrightarrow>
      col_hours \<in> set (columns df) \<longrightarrow>
      snd (app_view df choice) = Inr () \<and>
      last (fst (app_view df choice)) = Metric metric_label (''nan'' @ hours_suffix))
   \<and> (ShowDataframe shown \<in> set (fst (streamlit_view df choice)) \<longrightarrow> rows shown = [] \<longrightarrow>
      col_hours \<in> set (columns df) \<longrightarrow>
      snd (streamlit_view df choice) = Inr () \<and>
      last (fst (streamlit_view df choice)) = Metric metric_label (''nan'' @ hours_suffix))"
  using avg_hours_text_no_rows app_view_no_rows streamlit_view_no_rows by blast

text \<open>The amended theorem at the table with the NaN cluster, NaN picked.\<close>
theorem empty_rows_mean_is_nan_witness:
  "avg_hours_text \<lparr>columns = [col_cluster, col_hours], rows = []\<rparr> = Inr (''nan'' @ hours_suffix)
   \<and> snd (app_view (DataFrame nan_cluster_records) 1) = Inr ()
   \<and> last (fst (app_view (DataFrame nan_cluster_records) 1))
       = Metric metric_label (''nan'' @ hours_suffix)
   \<and> snd (streamlit_view (DataFrame nan_cluster_records) 1) = Inr ()
   \<and> last (fst (streamlit_view (DataFrame nan_cluster_records) 1))
       = Metric metric_label (''nan'' @ hours_suffix)"
proof -
  have a: "ShowDataframe \<lparr>columns = [col_cluster, col_hours], rows = []\<rparr>
      \<in> set (fst (app_view (DataFrame nan_cluster_records) 1))"
    and s: "ShowDataframe \<lparr>columns = [col_cluster, col_hours], rows = []\<rparr>
      \<in> set (fst (streamlit_view (DataFrame nan_cluster_records) 1))"
    and h: "col_hours \<in> set (columns (DataFrame nan_cluster_records))"
    and h': "col_hours \<in> set [col_cluster, col_hours]"
    by code_simp+
  show ?thesis
    using empty_rows_mean_is_nan
      [of "\<lparr>columns = [col_cluster, col_hours], rows = []\<rparr>" "DataFrame nan_cluster_records" 1]
      a s h h'
    by simp
qed

text \<open>
  C4, where the scripts break it. A table without the cluster column: both scripts render
  the warning and the two headers, then the lookup of the cluster column raises a
  KeyError, before the select box and the table. A table without the accumulated-time
  column: the table is rendered, then the lookup for the mean raises a KeyError.
  Scenario B, which lacks only the department, is rendered to its end, with the warning
  and the four other columns.
\<close>
theorem missing_cluster_or_hours_raises:
  "app_main (local_env (serve no_cluster_records)) 0
     = ([SetPageConfig, Title page_title, Write (target_sheet_prefix @ SHEET_URL),
         Warning (missing_columns_prefix @ col_cluster),
         Header raw_data_header, SidebarHeader filter_header], Inl (KeyError col_cluster))
   \<and> streamlit_main (local_env (serve no_cluster_records)) 0
     = ([SetPageConfig, Title page_title, Write (target_sheet_prefix @ SHEET_URL),
         Warning (missing_columns_prefix @ col_cluster),
         Header raw_data_header, SidebarHeader filter_header], Inl (KeyError col_cluster))
   \<and> app_main (local_env (serve no_hours_records)) 0
     = ([SetPageConfig, Title page_title, Write (target_sheet_prefix @ SHEET_URL),
         Warning (missing_columns_prefix @ col_hours),
         Header raw_data_header, SidebarHeader filter_header,
         Selectbox cluster_select_label [Str all_clusters_label, Str ''A''],
         ShowDataframe
           \<lparr>columns = [col_cluster, col_empno, col_name, col_dept],
            rows = [[(col_cluster, Str ''A''), (col_empno, Num 1), (col_name, Str ''Kim''),
                     (col_dept, Str ''Sales'')]]\<rparr>,
         Header summary_header], Inl (KeyError col_hours))
   \<and> streamlit_main (local_env (serve no_hours_records)) 0
     = ([SetPageConfig, Title page_title, Write (target_sheet_prefix @ SHEET_URL),
         Warning (missing_columns_prefix @ col_hours),
         Header raw_data_header, SidebarHeader filter_header,
         Selectbox cluster_select_label [Str all_clusters_label, Str ''A''],
         ShowDataframe
           \<lparr>columns = [col_cluster, col_empno, col_name, col_dept],
            rows = [[(col_cluster, Str ''A''), (col_empno, Num 1), (col_name, Str ''Kim''),
                     (col_dept, Str ''Sales'')]]\<rparr>,
         Header summary_header], Inl (KeyError col_hours))
   \<and> app_main (local_env (serve scenario_B)) 0
     = ([SetPageConfig, Title page_title, Write (target_sheet_prefix @ SHEET_URL),
         Warning (missing_columns_prefix @ col_dept),
         Header raw_data_header, SidebarHeader filter_header,
         Selectbox cluster_select_label [Str all_clusters_label, Str ''A'', Str ''B''],
         ShowDataframe
           \<lparr>columns = [col_cluster, col_empno, col_name, col_hours],
            rows = [[(col_cluster, Str ''A''), (col_empno, Num 1), (col_name, Str ''Kim''),
                     (col_hours, Num 20)],
                    [(col_cluster, Str ''B''), (col_empno, Num 2), (col_name, Str ''Lee''),
                     (col_hours, Num 4)]]\<rparr>,
         Header summary_header,
         Metric metric_label (''12.0'' @ hours_suffix)], Inr ())"
  by code_simp

subsection \<open>The two scripts side by side\<close>

lemma filter_data_without_text:
  "filter data_element (map without_text xs) = filter data_element xs"
proof (induction xs)
  case Nil
  show ?case by simp
next
  case (Cons u xs)
  then show ?case by (cases u) simp_all
qed

lemma views_agree:
  "map without_text (fst (app_view df choice)) = map without_text (fst (streamlit_view df choice))
   \<and> snd (app_view df choice) = snd (streamlit_view df choice)"
  by (simp add: app_view_cases streamlit_view_cases Let_def split: sum.splits)

lemma composers_agree:
  "map without_text (fst (app_compose df choice))
     = map without_text (fst (streamlit_compose df choice))
   \<and> snd (app_compose df choice) = snd (streamlit_compose df choice)"
  using views_agree [of df choice]
  by (simp add: app_compose_def streamlit_compose_def emit_def)

lemma authorize_agree:
  "path_exists env SERVICE_ACCOUNT_FILE \<Longrightarrow>
   app_authorize_gspread env = streamlit_authorize_gspread env"
  by (simp add: app_authorize_file streamlit_authorize_file)

lemma mains_agree:
  assumes "path_exists env SERVICE_ACCOUNT_FILE"
  shows "map without_text (fst (app_main env choice))
           = map without_text (fst (streamlit_main env choice))
         \<and> snd (app_main env choice) = snd (streamlit_main env choice)"
proof -
  obtain out r where auth: "streamlit_authorize_gspread env = (out, r)"
    by (cases "streamlit_authorize_gspread env")
  then have auth': "app_authorize_gspread env = (out, r)"
    using assms by (simp add: authorize_agree)
  show ?thesis
  proof (cases r)
    case (Inl e)
    with auth auth' show ?thesis
      by (simp add: app_main_def streamlit_main_def emit_def seq_def)
  next
    case (Inr client)
    show ?thesis
    proof (cases client)
      case None
      with Inr auth auth' show ?thesis
        by (simp add: app_main_unauthorized streamlit_main_unauthorized)
    next
      case (Some c)
      obtain out' r' where load:
        "app_load_simple_data (Some c) SHEET_URL default_sheet_name = (out', r')"
        by (cases "app_load_simple_data (Some c) SHEET_URL default_sheet_name")
      show ?thesis
      proof (cases r')
        case (Inl e)
        with Some Inr auth auth' load show ?thesis
          by (simp add: app_main_def streamlit_main_def streamlit_load_eq_app emit_def seq_def)
      next
        case (Inr df)
        with Some \<open>r = Inr client\<close> auth auth' load composers_agree [of df choice]
        show ?thesis
          by (simp add: app_main_loaded streamlit_main_loaded streamlit_load_eq_app)
      qed
    qed
  qed
qed

text \<open>
  C9. When the credential file exists, both scripts resolve the same client; their
  loaders are the same function; and the two pages are the same element for element once
  the wording of errors and warnings is left out, with the same exception or none. In
  particular the select boxes with their options, the displayed tables with their
  columns and rows, and the metrics of the two pages are the same.
\<close>
theorem scripts_agree_with_local_file:
  "path_exists env SERVICE_ACCOUNT_FILE \<longrightarrow>
     app_authorize_gspread env = streamlit_authorize_gspread env
     \<and> app_load_simple_data = streamlit_load_simple_data
     \<and> map without_text (fst (app_main env choice))
         = map without_text (fst (streamlit_main env choice))
     \<and> snd (app_main env choice) = snd (streamlit_main env choice)
     \<and> filter data_element (fst (app_main env choice))
         = filter data_element (fst (streamlit_main env choice))"
proof
  assume present: "path_exists env SERVICE_ACCOUNT_FILE"
  have "filter data_element (map without_text (fst (app_main env choice)))
      = filter data_element (map without_text (fst (streamlit_main env choice)))"
    using mains_agree [OF present] by simp
  then have "filter data_element (fst (app_main env choice))
      = filter data_element (fst (streamlit_main env choice))"
    by (simp only: filter_data_without_text)
  then show "app_authorize_gspread env = streamlit_authorize_gspread env
     \<and> app_load_simple_data = streamlit_load_simple_data
     \<and> map without_text (fst (app_main env choice))
         = map without_text (fst (streamlit_main env choice))
     \<and> snd (app_main env choice) = snd (streamlit_main env choice)
     \<and> filter data_element (fst (app_main env choice))
         = filter data_element (fst (streamlit_main env choice))"
    using mains_agree [OF present] authorize_agree [OF present]
    by (simp add: streamlit_load_eq_app)
qed

text \<open>The theorem at scenario A with the cluster \<^verbatim>\<open>B\<close> picked: what app.py shows is
  what streamlit_app.py shows.\<close>
theorem scripts_agree_with_local_file_witness:
  "path_exists (local_env (serve scenario_A)) SERVICE_ACCOUNT_FILE
   \<and> filter data_element (fst (streamlit_main (local_env (serve scenario_A)) 2))
       = [Selectbox cluster_select_label [Str all_clusters_label, Str ''A'', Str ''B''],
          ShowDataframe
            \<lparr>columns = display_columns,
             rows = [[(col_cluster, Str ''B''), (col_empno, Num 2), (col_name, Str ''Lee''),
                      (col_dept, Str ''Sales''), (col_hours, Num 0)]]\<rparr>,
          Metric metric_label (''0.0'' @ hours_suffix)]
   \<and> snd (streamlit_main (local_env (serve scenario_A)) 2) = Inr ()"
proof -
  have present: "path_exists (local_env (serve scenario_A)) SERVICE_ACCOUNT_FILE"
    by (simp add: local_env_def)
  have app: "filter data_element (fst (app_main (local_env (serve scenario_A)) 2))
       = [Selectbox cluster_select_label [Str all_clusters_label, Str ''A'', Str ''B''],
          ShowDataframe
            \<lparr>columns = display_columns,
             rows = [[(col_cluster, Str ''B''), (col_empno, Num 2), (col_name, Str ''Lee''),
                      (col_dept, Str ''Sales''), (col_hours, Num 0)]]\<rparr>,
          Metric metric_label (''0.0'' @ hours_suffix)]"
    and ok: "snd (app_main (local_env (serve scenario_A)) 2) = Inr ()"
    by code_simp+
  show ?thesis
    using scripts_agree_with_local_file [of "local_env (serve scenario_A)" 2] present app ok
    by simp
qed

subsection \<open>The empty table\<close>

text \<open>
  C10, as the scripts behave. A document without the worksheet and a worksheet without
  records both end in the message that loading failed or there is no data, but the pages
  differ: the first one shows the loader's report that the sheet was not found before it.
\<close>
theorem load_failure_is_distinguishable:
  "app_main (local_env no_such_sheet_client) 0
     = ([SetPageConfig, Title page_title, Write (target_sheet_prefix @ SHEET_URL),
         Error (quoted default_sheet_name @ sheet_not_found_suffix),
         Error app_no_data_error], Inr ())
   \<and> app_main (local_env (serve [])) 0
     = ([SetPageConfig, Title page_title, Write (target_sheet_prefix @ SHEET_URL),
         Error app_no_data_error], Inr ())
   \<and> app_main (local_env no_such_sheet_client) 0 \<noteq> app_main (local_env (serve [])) 0
   \<and> streamlit_main (local_env no_such_sheet_client) 0
     = ([SetPageConfig, Title page_title, Write (target_sheet_prefix @ SHEET_URL),
         Error (quoted default_sheet_name @ sheet_not_found_suffix),
         Error streamlit_no_data_error], Inr ())
   \<and> streamlit_main (local_env (serve [])) 0
     = ([SetPageConfig, Title page_title, Write (target_sheet_prefix @ SHEET_URL),
         Error streamlit_no_data_error], Inr ())
   \<and> streamlit_main (local_env no_such_sheet_client) 0
       \<noteq> streamlit_main (local_env (serve [])) 0"
  by code_simp

text \<open>
  C10, amended. The composer of each script renders every empty table, whatever produced
  it, as the one message that loading failed or there is no data, and nothing else. On
  the page this message is the last element, after whatever the loader reported: nothing
  when the load fetched zero records, and one error when the fetch raised.
\<close>
theorem empty_table_same_message:
  "(df_empty df \<longrightarrow>
      app_compose df choice = ([Error app_no_data_error], Inr ())
      \<and> streamlit_compose df choice = ([Error streamlit_no_data_error], Inr ())
      \<and> (\<forall>env c out out'.
            app_authorize_gspread env = (out, Inr (Some c)) \<longrightarrow>
            app_load_simple_data (Some c) SHEET_URL default_sheet_name = (out', Inr df) \<longrightarrow>
            app_main env choice
              = ([SetPageConfig, Title page_title, Write (target_sheet_prefix @ SHEET_URL)]
                 @ out @ out' @ [Error app_no_data_error], Inr ()))
      \<and> (\<forall>env c out out'.
            streamlit_authorize_gspread env = (out, Inr (Some c)) \<longrightarrow>
            streamlit_load_simple_data (Some c) SHEET_URL default_sheet_name = (out', Inr df) \<longrightarrow>
            streamlit_main env choice
              = ([SetPageConfig, Title page_title, Write (target_sheet_prefix @ SHEET_URL)]
                 @ out @ out' @ [Error streamlit_no_data_error], Inr ())))
   \<and> df_empty (DataFrame [])
   \<and> (\<forall>c ss ws. open_by_url c url = Inr ss \<longrightarrow> worksheet ss name = Inr ws \<longrightarrow>
         get_all_records ws = Inr [] \<longrightarrow>
         app_load_simple_data (Some c) url name = ([], Inr (DataFrame []))
         \<and> streamlit_load_simple_data (Some c) url name = ([], Inr (DataFrame [])))
   \<and> (\<forall>c e. open_by_url c url = Inl e \<or>
          (\<exists>ss. open_by_url c url = Inr ss \<and>
             (worksheet ss name = Inl e \<or>
              (\<exists>ws. worksheet ss name = Inr ws \<and> get_all_records ws = Inl e))) \<longrightarrow>
         (\<exists>m. app_load_simple_data (Some c) url name = ([Error m], Inr (DataFrame []))
            \<and> streamlit_load_simple_data (Some c) url name = ([Error m], Inr (DataFrame []))))"
proof -
  have composed: "app_compose df choice = ([Error app_no_data_error], Inr ())"
    "streamlit_compose df choice = ([Error streamlit_no_data_error], Inr ())"
    if "df_empty df"
    using that by (simp_all add: app_compose_def streamlit_compose_def emit_def)
  have pages: "app_main env choice
              = ([SetPageConfig, Title page_title, Write (target_sheet_prefix @ SHEET_URL)]
                 @ out @ out' @ [Error app_no_data_error], Inr ())"
    if "df_empty df" "app_authorize_gspread env = (out, Inr (Some c))"
      "app_load_simple_data (Some c) SHEET_URL default_sheet_name = (out', Inr df)"
    for env c out out'
    using that by (simp add: app_main_loaded composed)
  have pages': "streamlit_main env choice
              = ([SetPageConfig, Title page_title, Write (target_sheet_prefix @ SHEET_URL)]
                 @ out @ out' @ [Error streamlit_no_data_error], Inr ())"
    if "df_empty df" "streamlit_authorize_gspread env = (out, Inr (Some c))"
      "streamlit_load_simple_data (Some c) SHEET_URL default_sheet_name = (out', Inr df)"
    for env c out out'
    using that by (simp add: streamlit_main_loaded composed)
  have nohours: "col_hours \<notin> set (columns (DataFrame []))"
    by (simp add: DataFrame_def)
  have fetched: "app_load_simple_data (Some c) url name = ([], Inr (DataFrame []))"
    if "open_by_url c url = Inr ss" "worksheet ss name = Inr ws" "get_all_records ws = Inr []"
    for c ss ws
    using that nohours by (simp add: app_load_cases)
  have failed: "\<exists>m. app_load_simple_data (Some c) url name = ([Error m], Inr (DataFrame []))"
    if "open_by_url c url = Inl e \<or>
          (\<exists>ss. open_by_url c url = Inr ss \<and>
             (worksheet ss name = Inl e \<or>
              (\<exists>ws. worksheet ss name = Inr ws \<and> get_all_records ws = Inl e)))" for c e
    using that by (auto simp: app_load_cases)
  show ?thesis
    unfolding streamlit_load_eq_app
    using composed pages pages' [unfolded streamlit_load_eq_app] fetched failed
    by (simp add: df_empty_DataFrame_Nil)
qed

text \<open>The amended theorem at the worksheet without records and at the document without
  the worksheet.\<close>
theorem empty_table_same_message_witness:
  "app_main (local_env (serve [])) 0
     = ([SetPageConfig, Title page_title, Write (target_sheet_prefix @ SHEET_URL),
         Error app_no_data_error], Inr ())
   \<and> (\<exists>m. streamlit_main (local_env no_such_sheet_client) 0
     = ([SetPageConfig, Title page_title, Write (target_sheet_prefix @ SHEET_URL),
         Error m, Error streamlit_no_data_error], Inr ()))"
proof -
  note inst = empty_table_same_message
    [where df = "DataFrame []" and choice = 0 and url = SHEET_URL and name = default_sheet_name]
  have auth: "app_authorize_gspread (local_env (serve [])) = ([], Inr (Some (serve [])))"
    "streamlit_authorize_gspread (local_env no_such_sheet_client)
       = ([], Inr (Some no_such_sheet_client))"
    by (simp_all add: app_authorize_file streamlit_authorize_file local_env_def)
  have zero: "app_load_simple_data (Some (serve [])) SHEET_URL default_sheet_name
      = ([], Inr (DataFrame []))"
    using inst by (simp add: serve_def)
  have "worksheet (Spreadsheet (\<lambda>name. Inl (WorksheetNotFound name))) default_sheet_name
      = Inl (WorksheetNotFound default_sheet_name)"
    by simp
  then obtain m where none:
    "streamlit_load_simple_data (Some no_such_sheet_client) SHEET_URL default_sheet_name
      = ([Error m], Inr (DataFrame []))"
    using inst [THEN conjunct2, THEN conjunct2, THEN conjunct2, rule_format,
        of no_such_sheet_client "WorksheetNotFound default_sheet_name"]
    by (auto simp: no_such_sheet_client_def)
  show ?thesis
    using inst auth zero none by simp
qed

end
